theory Spec2Isabelle
  imports Complex_Main "HOL-Library.Sublist"
begin

section \<open>Python strings\<close>

text \<open>
  A Python \<open>str\<close> is a sequence of Unicode code points, so it is modelled as a list of
  natural numbers (one per code point), not as a list of 8-bit characters: the retriever
  tests code points in the range U+4E00 to U+9FFF.
\<close>

type_synonym ustr = "nat list"

definition of_ascii :: "string \<Rightarrow> ustr" where
  "of_ascii s = map of_char s"

text \<open>
  \<open>truthy\<close> is Python's truth value of an \<open>Optional[str]\<close>: \<open>None\<close> and the empty
  string are false. \<open>present\<close> keeps the value exactly when it is true.
\<close>

definition truthy :: "ustr option \<Rightarrow> bool" where
  "truthy v = (case v of None \<Rightarrow> False | Some s \<Rightarrow> s \<noteq> [])"

definition present :: "ustr option \<Rightarrow> ustr option" where
  "present v = (case v of None \<Rightarrow> None | Some s \<Rightarrow> if s = [] then None else Some s)"

text \<open>
  \<open>str.isspace\<close>, \<open>str.strip()\<close> and \<open>str.split()\<close> use one whitespace predicate on
  code points; the code points below are the ones CPython treats as whitespace.
\<close>

definition isspace :: "nat \<Rightarrow> bool" where
  "isspace c = (c \<in> {9, 10, 11, 12, 13, 28, 29, 30, 31, 32, 133, 160, 5760,
                     8192, 8193, 8194, 8195, 8196, 8197, 8198, 8199, 8200, 8201, 8202,
                     8232, 8233, 8239, 8287, 12288})"

definition strip :: "ustr \<Rightarrow> ustr" where
  "strip s = rev (dropWhile isspace (rev (dropWhile isspace s)))"

text \<open>
  \<open>str.lower\<close> and \<open>str.isalnum\<close> depend on the Unicode character database of the Python
  runtime, which is no part of this repository. Every function below that calls them takes
  them as the parameters \<open>lower\<close> and \<open>isalnum\<close>, and every general theorem holds for all
  such functions. \<open>ascii_lower\<close> and \<open>ascii_isalnum\<close> are what Python computes on strings of
  ASCII code points; the concrete examples use them on ASCII input only.
\<close>

definition ascii_lower :: "ustr \<Rightarrow> ustr" where
  "ascii_lower s = map (\<lambda>c. if 65 \<le> c \<and> c \<le> 90 then c + 32 else c) s"

definition ascii_isalnum :: "nat \<Rightarrow> bool" where
  "ascii_isalnum c = ((48 \<le> c \<and> c \<le> 57) \<or> (65 \<le> c \<and> c \<le> 90) \<or> (97 \<le> c \<and> c \<le> 122))"


section \<open>Literature items\<close>

text \<open>
  \<open>LiteratureItem\<close> of \<open>retrieval/base_retriever.py\<close>, with the fields the review pipeline
  reads. \<open>publication_date\<close> carries the date as its \<open>isoformat()\<close> rendering.
\<close>

record literature_item =
  item_id :: ustr
  title :: ustr
  authors :: "ustr list"
  abstract :: "ustr option"
  full_text :: "ustr option"
  publication_date :: "ustr option"
  doi :: "ustr option"
  arxiv_id :: "ustr option"
  url :: "ustr option"
  pdf_url :: "ustr option"
  source :: ustr

text \<open>
  \<open>LiteratureItem(id=..., title=..., source=...)\<close>: the three required fields, every
  other field at its declared default.
\<close>

definition new_item :: "ustr \<Rightarrow> ustr \<Rightarrow> ustr \<Rightarrow> literature_item" where
  "new_item i t s =
     \<lparr>item_id = i, title = t, authors = [], abstract = None, full_text = None,
      publication_date = None, doi = None, arxiv_id = None, url = None, pdf_url = None,
      source = s\<rparr>"


section \<open>Deduplication stage 1: unique identifiers\<close>

text \<open>
  \<open>unique_id\<close> is the variable of that name in \<open>conduct_literature_review\<close>: the lowercased
  DOI when \<open>item.doi\<close> is true, else the lowercased arXiv id when \<open>item.arxiv_id\<close> is true,
  else \<open>None\<close>.
\<close>

definition unique_id :: "(ustr \<Rightarrow> ustr) \<Rightarrow> literature_item \<Rightarrow> ustr option" where
  "unique_id lower item =
     (case present (doi item) of
        Some d \<Rightarrow> Some (lower d)
      | None \<Rightarrow>
          (case present (arxiv_id item) of
             Some a \<Rightarrow> Some (lower a)
           | None \<Rightarrow> None))"

text \<open>
  The loop over \<open>retrieved_items\<close> with the set \<open>seen_ids_for_dedup\<close>. The source appends
  each kept item to \<open>temp_deduped_items_by_id\<close>; here the kept item is put in front of what
  the rest of the loop keeps, which is the same list. Both tests of the source are on the
  truth value of \<open>unique_id\<close>, so an empty key is never looked up nor recorded.
\<close>

fun dedup_by_id :: "(ustr \<Rightarrow> ustr) \<Rightarrow> ustr set \<Rightarrow> literature_item list \<Rightarrow> literature_item list" where
  "dedup_by_id lower seen [] = []"
| "dedup_by_id lower seen (item # rest) =
     (case unique_id lower item of
        None \<Rightarrow> item # dedup_by_id lower seen rest
      | Some u \<Rightarrow>
          if u \<noteq> [] \<and> u \<in> seen then dedup_by_id lower seen rest
          else if u \<noteq> [] then item # dedup_by_id lower (insert u seen) rest
          else item # dedup_by_id lower seen rest)"

definition strong_pass :: "(ustr \<Rightarrow> ustr) \<Rightarrow> literature_item list \<Rightarrow> literature_item list" where
  "strong_pass lower items = dedup_by_id lower {} items"

text \<open>The key under which the loop really compares an item: \<open>unique_id\<close> when it is true.\<close>

definition strong_key :: "(ustr \<Rightarrow> ustr) \<Rightarrow> literature_item \<Rightarrow> ustr option" where
  "strong_key lower item = present (unique_id lower item)"

text \<open>
  The identifier of an item as the specification words it, for comparison with the
  source: the case-normalized DOI of an item that has a DOI, else the case-normalized
  arXiv id of an item that has one, else none.
\<close>

definition spec_identifier :: "(ustr \<Rightarrow> ustr) \<Rightarrow> literature_item \<Rightarrow> ustr option" where
  "spec_identifier lower item =
     (if truthy (doi item) then map_option lower (doi item)
      else if truthy (arxiv_id item) then map_option lower (arxiv_id item)
      else None)"


section \<open>Deduplication stage 2: normalized title and first author\<close>

text \<open>
  \<open>norm_title\<close>, \<open>first_author_norm\<close> and \<open>title_author_key\<close> are the variables of those
  names in the second loop. The title is lowercased, only its alphanumeric and whitespace
  characters are kept, and the result is stripped at both ends; the first author is
  lowercased and stripped at both ends, nothing else, and an item with no author gets the
  fixed name \<open>unknown_author\<close>. The key is Python's \<open>hash\<close> of the pair, the parameter
  \<open>hash\<close> here.
\<close>

definition norm_title :: "(ustr \<Rightarrow> ustr) \<Rightarrow> (nat \<Rightarrow> bool) \<Rightarrow> literature_item \<Rightarrow> ustr" where
  "norm_title lower isalnum item =
     strip (filter (\<lambda>e. isalnum e \<or> isspace e) (lower (title item)))"

definition first_author_norm :: "(ustr \<Rightarrow> ustr) \<Rightarrow> literature_item \<Rightarrow> ustr" where
  "first_author_norm lower item =
     (case authors item of
        [] \<Rightarrow> of_ascii ''unknown_author''
      | a # _ \<Rightarrow> strip (lower a))"

definition title_author_key ::
  "(ustr \<Rightarrow> ustr) \<Rightarrow> (nat \<Rightarrow> bool) \<Rightarrow> (ustr \<times> ustr \<Rightarrow> 'h) \<Rightarrow> literature_item \<Rightarrow> 'h" where
  "title_author_key lower isalnum hash item =
     hash (norm_title lower isalnum item, first_author_norm lower item)"

fun dedup_by_title_author ::
  "(ustr \<Rightarrow> ustr) \<Rightarrow> (nat \<Rightarrow> bool) \<Rightarrow> (ustr \<times> ustr \<Rightarrow> 'h) \<Rightarrow> 'h set \<Rightarrow>
   literature_item list \<Rightarrow> literature_item list" where
  "dedup_by_title_author lower isalnum hash seen [] = []"
| "dedup_by_title_author lower isalnum hash seen (item # rest) =
     (if title_author_key lower isalnum hash item \<in> seen
      then dedup_by_title_author lower isalnum hash seen rest
      else item # dedup_by_title_author lower isalnum hash
             (insert (title_author_key lower isalnum hash item) seen) rest)"

definition soft_pass ::
  "(ustr \<Rightarrow> ustr) \<Rightarrow> (nat \<Rightarrow> bool) \<Rightarrow> (ustr \<times> ustr \<Rightarrow> 'h) \<Rightarrow>
   literature_item list \<Rightarrow> literature_item list" where
  "soft_pass lower isalnum hash items = dedup_by_title_author lower isalnum hash {} items"

text \<open>
  The pair as the specification words it, for comparison with the source: title and first
  author are both lowercased and lose every character that is neither alphanumeric nor a
  space.
\<close>

definition spec_normalize :: "(ustr \<Rightarrow> ustr) \<Rightarrow> (nat \<Rightarrow> bool) \<Rightarrow> ustr \<Rightarrow> ustr" where
  "spec_normalize lower isalnum s = filter (\<lambda>e. isalnum e \<or> isspace e) (lower s)"

definition spec_title_author_pair ::
  "(ustr \<Rightarrow> ustr) \<Rightarrow> (nat \<Rightarrow> bool) \<Rightarrow> literature_item \<Rightarrow> ustr \<times> ustr" where
  "spec_title_author_pair lower isalnum item =
     (spec_normalize lower isalnum (title item),
      case authors item of
        [] \<Rightarrow> of_ascii ''unknown_author''
      | a # _ \<Rightarrow> spec_normalize lower isalnum a)"


section \<open>The deduplicator and the truncation to \<open>max_papers\<close>\<close>

definition dedup ::
  "(ustr \<Rightarrow> ustr) \<Rightarrow> (nat \<Rightarrow> bool) \<Rightarrow> (ustr \<times> ustr \<Rightarrow> 'h) \<Rightarrow>
   literature_item list \<Rightarrow> literature_item list" where
  "dedup lower isalnum hash items = soft_pass lower isalnum hash (strong_pass lower items)"

text \<open>
  \<open>slice_to n xs\<close> is the Python slice \<open>xs[:n]\<close> for an integer \<open>n\<close>: a negative \<open>n\<close> counts
  from the end. \<open>limit_papers\<close> is the truncation after the two passes.
\<close>

definition slice_to :: "int \<Rightarrow> 'a list \<Rightarrow> 'a list" where
  "slice_to n xs = (if 0 \<le> n then take (nat n) xs else take (length xs - nat (- n)) xs)"

definition limit_papers :: "int \<Rightarrow> 'a list \<Rightarrow> 'a list" where
  "limit_papers max_papers items =
     (if int (length items) > max_papers then slice_to max_papers items else items)"


section \<open>The arXiv retriever: query translation\<close>

text \<open>
  \<open>old in s\<close>, \<open>s.replace(old, new)\<close>, \<open>s.split()\<close> and \<open>sep.join(parts)\<close> of Python
  strings. \<open>replace\<close> rewrites the occurrences of \<open>old\<close> from left to right without
  overlap; for an empty \<open>old\<close> Python puts \<open>new\<close> before every character and at the end.
  \<open>split\<close> cuts at runs of whitespace and returns no empty word.
\<close>

fun contains :: "ustr \<Rightarrow> ustr \<Rightarrow> bool" where
  "contains old [] = (old = [])"
| "contains old (c # cs) = (prefix old (c # cs) \<or> contains old cs)"

function replace :: "ustr \<Rightarrow> ustr \<Rightarrow> ustr \<Rightarrow> ustr" where
  "replace old new [] = (if old = [] then new else [])"
| "replace old new (c # cs) =
     (if old = [] then new @ c # replace old new cs
      else if prefix old (c # cs) then new @ replace old new (drop (length old) (c # cs))
      else c # replace old new cs)"
  by pat_completeness auto
termination
  by (relation "measure (\<lambda>(old, new, s). length s)") auto

fun split_from :: "ustr \<Rightarrow> ustr \<Rightarrow> ustr list" where
  "split_from word [] = (if word = [] then [] else [word])"
| "split_from word (c # cs) =
     (if isspace c then (if word = [] then split_from [] cs else word # split_from [] cs)
      else split_from (word @ [c]) cs)"

definition split :: "ustr \<Rightarrow> ustr list" where
  "split s = split_from [] s"

fun join :: "ustr \<Rightarrow> ustr list \<Rightarrow> ustr" where
  "join sep [] = []"
| "join sep [w] = w"
| "join sep (w # ws) = w @ sep @ join sep ws"

text \<open>
  The class attribute \<open>CHINESE_TO_ENGLISH\<close> of \<open>ArxivClient\<close>, in the order of the source
  (a Python dictionary is iterated in insertion order), and the list \<open>chinese_stopwords\<close>
  of \<open>translate_chinese_query\<close>. Chinese words are written as their code points.
\<close>

definition CHINESE_TO_ENGLISH :: "(ustr \<times> ustr) list" where
  "CHINESE_TO_ENGLISH =
     [([28145, 24230, 23398, 20064], of_ascii ''deep learning''),
      ([26426, 22120, 23398, 20064], of_ascii ''machine learning''),
      ([20154, 24037, 26234, 33021], of_ascii ''artificial intelligence''),
      ([31070, 32463, 32593, 32476], of_ascii ''neural network''),
      ([21367, 31215, 31070, 32463, 32593, 32476], of_ascii ''convolutional neural network''),
      ([24490, 29615, 31070, 32463, 32593, 32476], of_ascii ''recurrent neural network''),
      (of_ascii ''transformer'', of_ascii ''transformer''),
      ([27880, 24847, 21147, 26426, 21046], of_ascii ''attention mechanism''),
      ([33258, 28982, 35821, 35328, 22788, 29702], of_ascii ''natural language processing''),
      ([35745, 31639, 26426, 35270, 35273], of_ascii ''computer vision''),
      ([24378, 21270, 23398, 20064], of_ascii ''reinforcement learning''),
      ([20248, 21270, 31639, 27861], of_ascii ''optimization algorithm''),
      ([26799, 24230, 19979, 38477], of_ascii ''gradient descent''),
      ([21453, 21521, 20256, 25773], of_ascii ''backpropagation''),
      ([25439, 22833, 20989, 25968], of_ascii ''loss function''),
      ([27491, 21017, 21270], of_ascii ''regularization''),
      ([25209, 37327, 24402, 19968, 21270], of_ascii ''batch normalization''),
      ([23398, 20064, 29575], of_ascii ''learning rate''),
      ([21307, 30103], of_ascii ''medical''),
      ([35786, 26029], of_ascii ''diagnosis''),
      ([22270, 20687, 35782, 21035], of_ascii ''image recognition''),
      ([35821, 38899, 35782, 21035], of_ascii ''speech recognition''),
      ([25512, 33616, 31995, 32479], of_ascii ''recommendation system''),
      ([33258, 21160, 39550, 39542], of_ascii ''autonomous driving''),
      ([26368, 26032, 30740, 31350], of_ascii ''recent research''),
      ([32508, 36848], of_ascii ''survey''),
      ([31639, 27861], of_ascii ''algorithm''),
      ([27169, 22411], of_ascii ''model''),
      ([26041, 27861], of_ascii ''method''),
      ([25216, 26415], of_ascii ''technique''),
      ([24212, 29992], of_ascii ''application''),
      ([24615, 33021], of_ascii ''performance''),
      ([20934, 30830, 29575], of_ascii ''accuracy''),
      ([25928, 26524], of_ascii ''effectiveness'')]"

definition chinese_stopwords :: "ustr list" where
  "chinese_stopwords =
     [[30340], [22312], [20013], [19982],
      [21644], [25110], [20851, 20110], [23545, 20110],
      [22522, 20110], [36890, 36807], [20351, 29992], [37319, 29992],
      [30740, 31350], [20998, 26512], [26041, 27861], [25216, 26415],
      [31639, 27861], [27169, 22411], [31995, 32479], [24212, 29992],
      [23454, 29616], [35774, 35745], [24320, 21457], [25552, 20986],
      [25913, 36827], [20248, 21270], [35780, 20272], [23454, 39564],
      [32467, 26524], [25928, 26524], [24615, 33021], [27604, 36739],
      [20998, 26512], [35752, 35770], [24635, 32467], [32467, 35770]]"

definition is_chinese :: "nat \<Rightarrow> bool" where
  "is_chinese char = (19968 \<le> char \<and> char \<le> 40959)"

definition has_chinese :: "ustr \<Rightarrow> bool" where
  "has_chinese query = list_ex is_chinese query"

text \<open>The two loops of \<open>translate_chinese_query\<close>: keyword replacement, stopword removal.\<close>

fun replace_keywords :: "(ustr \<times> ustr) list \<Rightarrow> ustr \<Rightarrow> ustr" where
  "replace_keywords [] translated_query = translated_query"
| "replace_keywords ((chinese, english) # rest) translated_query =
     replace_keywords rest
       (if contains chinese translated_query then replace chinese english translated_query
        else translated_query)"

fun remove_stopwords :: "ustr list \<Rightarrow> ustr \<Rightarrow> ustr" where
  "remove_stopwords [] translated_query = translated_query"
| "remove_stopwords (stopword # rest) translated_query =
     remove_stopwords rest (replace stopword (of_ascii '' '') translated_query)"

text \<open>
  \<open>cleaned\<close> is \<open>translated_query\<close> after the line
  \<open>translated_query = " ".join(translated_query.split())\<close>; \<open>translate_text\<close> is the
  function from there on, for a string that has a Chinese character.
\<close>

definition cleaned :: "ustr \<Rightarrow> ustr" where
  "cleaned query =
     join (of_ascii '' '')
       (split (remove_stopwords chinese_stopwords (replace_keywords CHINESE_TO_ENGLISH query)))"

definition translate_text :: "ustr \<Rightarrow> ustr" where
  "translate_text query =
     (if strip (cleaned query) = [] \<or> length (strip (cleaned query)) < 3
      then of_ascii ''machine learning''
      else cleaned query)"

text \<open>
  The argument of \<open>translate_chinese_query\<close> is any Python value: a string, or a value of
  another type (\<open>None\<close>, a number), which the function returns as it is.
\<close>

datatype 'v pyval = Str ustr | NotStr 'v

fun translate_chinese_query :: "'v pyval \<Rightarrow> 'v pyval" where
  "translate_chinese_query (NotStr v) = NotStr v"
| "translate_chinese_query (Str query) =
     (if query = [] then Str query
      else if \<not> has_chinese query then Str query
      else Str (translate_text query))"


section \<open>Exceptions\<close>

text \<open>
  A raised exception is its class and its message. The classes are the built-in ones the
  modelled code meets, \<open>LLMManagerError\<close> of \<open>ai_core/llm_manager.py\<close>, \<open>SummarizerError\<close>
  of \<open>ai_core/summarizer.py\<close>, and \<open>AuthenticationError\<close> and \<open>OperationTimeoutError\<close> of
  \<open>exceptions.py\<close>. A message is an f-string: its literal pieces and the values put into
  it, among them the message of another exception.
\<close>

datatype exception_class =
  Exception | KeyError | ValueError | LLMManagerError | SummarizerError
  | AuthenticationError | OperationTimeoutError

datatype part = Lit string | IntArg int | Text ustr | Str_of "part list"

type_synonym exn = "exception_class \<times> part list"


section \<open>The arXiv retriever: search\<close>

text \<open>
  \<open>arxiv_search\<close> is the object \<open>arxiv.Search(query=..., max_results=...)\<close> that \<open>search\<close>
  hands to the arXiv client. \<open>search_request\<close> builds it: a string query goes through
  \<open>translate_chinese_query\<close> first, and \<open>max_results\<close> is capped by the client's own
  \<open>self.max_results\<close>.
\<close>

record 'v arxiv_search =
  search_query :: "'v pyval"
  search_max_results :: int

definition search_request :: "int \<Rightarrow> 'v pyval \<Rightarrow> int \<Rightarrow> 'v arxiv_search" where
  "search_request self_max_results query max_results =
     \<lparr>search_query = (case query of Str _ \<Rightarrow> translate_chinese_query query | NotStr _ \<Rightarrow> query),
      search_max_results = min max_results self_max_results\<rparr>"

text \<open>
  \<open>await asyncio.wait_for(loop.run_in_executor(None, search_arxiv), timeout=45)\<close> either
  yields the list \<open>search_arxiv\<close> returned (the empty list when the arXiv client raised) or
  raises \<open>asyncio.TimeoutError\<close>. Which of the two happens is decided outside the program,
  so \<open>wait_for\<close> is a parameter: given the request and the timeout in seconds it tells the
  outcome. \<open>convert\<close> is \<open>_convert_arxiv_result\<close>, with \<open>Inl\<close> for an exception it raises.
\<close>

datatype 'a awaited = Done 'a | TimedOut

fun convert_results :: "('r \<Rightarrow> exn + literature_item) \<Rightarrow> 'r list \<Rightarrow> exn + literature_item list" where
  "convert_results convert [] = Inr []"
| "convert_results convert (result # rest) =
     (case convert result of
        Inl e \<Rightarrow> Inl e
      | Inr item \<Rightarrow>
          (case convert_results convert rest of
             Inl e \<Rightarrow> Inl e
           | Inr literature_items \<Rightarrow> Inr (item # literature_items)))"

definition search ::
  "('v arxiv_search \<Rightarrow> nat \<Rightarrow> 'r list awaited) \<Rightarrow> ('r \<Rightarrow> exn + literature_item) \<Rightarrow>
   int \<Rightarrow> 'v pyval \<Rightarrow> int \<Rightarrow> exn + literature_item list" where
  "search wait_for convert self_max_results query max_results =
     (case wait_for (search_request self_max_results query max_results) 45 of
        TimedOut \<Rightarrow> Inl (Exception, [Lit ''ArXiv search timed out after 45 seconds''])
      | Done results \<Rightarrow>
          (case convert_results convert results of
             Inl e \<Rightarrow> Inl (Exception, [Lit ''ArXiv search failed: '', Str_of (snd e)])
           | Inr literature_items \<Rightarrow> Inr literature_items))"


section \<open>The LLM manager: requests with retries\<close>

text \<open>
  \<open>_make_request\<close> of \<open>LLMManager\<close>. What one HTTP attempt yields is decided by the network
  and the provider, so it is the parameter \<open>http\<close>, from the attempt number to the outcome
  of the \<open>try\<close> body: the decoded response, an \<open>httpx.HTTPStatusError\<close> (status code,
  response text, its \<open>str\<close>), an \<open>httpx.RequestError\<close> (its \<open>str\<close>), or any other exception
  (its message). The function returns its result and the trace of what it did: the
  requests it sent and the calls of \<open>asyncio.sleep\<close>, where \<open>Sleep_rate_limit n\<close> stands for
  \<open>llm_rate_limit_delay * n\<close> seconds, a product of floating-point numbers.
\<close>

datatype http_method = POST | GET | Other_method ustr

datatype 'j http_outcome =
  Response 'j
  | HTTPStatusError nat ustr ustr
  | RequestError ustr
  | Other_exception "part list"

datatype event = Send nat | Sleep_seconds nat | Sleep_rate_limit nat

definition attempt_outcome :: "http_method \<Rightarrow> (nat \<Rightarrow> 'j http_outcome) \<Rightarrow> nat \<Rightarrow> 'j http_outcome \<times> event list" where
  "attempt_outcome method http attempt =
     (case method of
        Other_method m \<Rightarrow> (Other_exception [Lit ''Unsupported HTTP method: '', Text m], [])
      | _ \<Rightarrow> (http attempt, [Send attempt]))"

definition and_then :: "event list \<Rightarrow> 'a \<times> event list \<Rightarrow> 'a \<times> event list" where
  "and_then events r = (fst r, events @ snd r)"

fun attempts ::
  "int \<Rightarrow> http_method \<Rightarrow> (nat \<Rightarrow> 'j http_outcome) \<Rightarrow> nat list \<Rightarrow> (exn + 'j) \<times> event list" where
  "attempts max_retries method http [] =
     (Inl (LLMManagerError,
           [Lit ''Failed to get a response from LLM after '', IntArg max_retries,
            Lit '' retries.'']), [])"
| "attempts max_retries method http (attempt # rest) =
     and_then (snd (attempt_outcome method http attempt))
       (case fst (attempt_outcome method http attempt) of
          Response response_data \<Rightarrow> (Inr response_data, [])
        | HTTPStatusError status_code text e \<Rightarrow>
            if status_code \<in> {401, 403}
            then (Inl (LLMManagerError, [Lit ''Authentication error: '', Text text]), [])
            else if status_code = 429
            then and_then [Sleep_rate_limit (attempt + 1)] (attempts max_retries method http rest)
            else if int attempt = max_retries - 1
            then (Inl (LLMManagerError,
                       [Lit ''HTTP error after '', IntArg max_retries, Lit '' retries: '',
                        Text e]), [])
            else and_then [Sleep_seconds (1 * (attempt + 1))]
                   (attempts max_retries method http rest)
        | RequestError e \<Rightarrow>
            if int attempt = max_retries - 1
            then (Inl (LLMManagerError,
                       [Lit ''Request error after '', IntArg max_retries, Lit '' retries: '',
                        Text e]), [])
            else and_then [Sleep_seconds (1 * (attempt + 1))]
                   (attempts max_retries method http rest)
        | Other_exception e \<Rightarrow>
            (Inl (LLMManagerError, [Lit ''Unexpected LLM error: '', Str_of e]), []))"

text \<open>\<open>range(self.max_retries)\<close> is empty for a \<open>max_retries\<close> that is not positive.\<close>

definition make_request ::
  "ustr option \<Rightarrow> int \<Rightarrow> http_method \<Rightarrow> (nat \<Rightarrow> 'j http_outcome) \<Rightarrow> (exn + 'j) \<times> event list" where
  "make_request base_url max_retries method http =
     (if \<not> truthy base_url
      then (Inl (LLMManagerError, [Lit ''LLM base URL is not configured.'']), [])
      else attempts max_retries method http [0..<nat max_retries])"

text \<open>
  The delay of a backoff that doubles from one second, for comparison: the comment of the
  source calls its own delay an exponential backoff.
\<close>

definition exponential_backoff :: "nat \<Rightarrow> nat" where
  "exponential_backoff attempt = 2 ^ attempt"


section \<open>The summarizer\<close>

text \<open>
  \<open>Summarizer.summarize_text\<close>. \<open>provider_defaults\<close> is the dictionary of that name, read
  at its keys \<open>max_tokens\<close> and \<open>temperature\<close>; a configured value is an integer, a string
  or something else. The request is what \<open>generate_chat_completion\<close> receives.
\<close>

datatype config_value = Int_value int | Str_value ustr | Other_value

record provider_defaults =
  default_max_tokens :: "config_value option"
  default_temperature :: "real option"

record chat_request =
  messages :: "(ustr \<times> ustr) list"
  request_max_tokens :: int
  request_temperature :: real

text \<open>
  What the summarizer reads from the response: the content of the first choice's message,
  no such message, or an exception while reading (its message).
\<close>

datatype llm_response = Content ustr | No_message | Unreadable "part list"

text \<open>
  \<open>str.isdigit\<close>, \<open>int\<close> and \<open>str.format\<close> belong to Python; they are the parameters
  \<open>isdigit\<close>, \<open>to_int\<close> and \<open>format\<close>, the last from the template and the keyword arguments
  to the text or the exception raised. \<open>llm\<close> is \<open>generate_chat_completion\<close>.
\<close>

definition final_max_tokens ::
  "(ustr \<Rightarrow> bool) \<Rightarrow> (ustr \<Rightarrow> exn + int) \<Rightarrow> provider_defaults \<Rightarrow> int option \<Rightarrow> exn + int" where
  "final_max_tokens isdigit to_int defaults max_tokens =
     (case (case max_tokens of
              Some n \<Rightarrow> Int_value n
            | None \<Rightarrow>
                (case default_max_tokens defaults of Some v \<Rightarrow> v | None \<Rightarrow> Int_value 200)) of
        Str_value s \<Rightarrow> if isdigit s then to_int s else Inr 200
      | Int_value n \<Rightarrow> Inr n
      | Other_value \<Rightarrow> Inr 200)"

definition final_temperature :: "provider_defaults \<Rightarrow> real option \<Rightarrow> real" where
  "final_temperature defaults temperature =
     (case temperature of
        Some t \<Rightarrow> t
      | None \<Rightarrow> (case default_temperature defaults of Some t \<Rightarrow> t | None \<Rightarrow> 0.5))"

definition general_system_prompt :: ustr where
  "general_system_prompt = of_ascii
     ''You are an expert academic assistant specializing in concise and informative text summarization.''"

definition general_user_prompt :: ustr where
  "general_user_prompt = of_ascii
     ''Please summarize the following text in a few sentences: \<newline>\<newline>{text_to_summarize}''"

definition key_findings_system_prompt :: ustr where
  "key_findings_system_prompt = of_ascii
     ''You are an expert research analyst. Your task is to extract and summarize the key findings from the provided text.''"

definition key_findings_user_prompt :: ustr where
  "key_findings_user_prompt = of_ascii
     ''Identify and summarize the key findings from this text in 2-4 bullet points or a short paragraph:\<newline>\<newline>{text_to_summarize}''"

definition abstract_enhancement_system_prompt :: ustr where
  "abstract_enhancement_system_prompt = of_ascii
     ''You are an AI assistant that refines and enhances academic abstracts to be more impactful and clear, focusing on core contributions and significance.''"

definition abstract_enhancement_user_prompt :: ustr where
  "abstract_enhancement_user_prompt = of_ascii
     ''Enhance the following abstract. Make it concise (2-3 sentences), clear, and highlight its core contributions and significance. Abstract:\<newline>\<newline>{text_to_summarize}''"

definition prompts ::
  "(ustr \<Rightarrow> (string \<times> ustr) list \<Rightarrow> exn + ustr) \<Rightarrow> ustr \<Rightarrow> ustr \<Rightarrow> ustr option \<Rightarrow> ustr option \<Rightarrow>
   exn + ustr \<times> ustr" where
  "prompts format text summary_type prompt_template context =
     (case present prompt_template of
        Some template \<Rightarrow>
          (case format template
                  [(''text_to_summarize'', text),
                   (''context'', case present context of Some c \<Rightarrow> c | None \<Rightarrow> [])] of
             Inl e \<Rightarrow>
               if fst e = KeyError
               then Inl (SummarizerError,
                         [Lit ''Prompt template missing required key: '', Str_of (snd e),
                          Lit (''. Template: '' @ [CHR 0x27]), Text template,
                          Lit [CHR 0x27]])
               else Inl e
           | Inr user_prompt \<Rightarrow> Inr (general_system_prompt, user_prompt))
      | None \<Rightarrow>
          if summary_type = of_ascii ''key_findings''
          then Inr (key_findings_system_prompt, key_findings_user_prompt)
          else if summary_type = of_ascii ''abstract_enhancement''
          then Inr (abstract_enhancement_system_prompt, abstract_enhancement_user_prompt)
          else Inr (general_system_prompt, general_user_prompt))"

definition fill_placeholder ::
  "(ustr \<Rightarrow> (string \<times> ustr) list \<Rightarrow> exn + ustr) \<Rightarrow> ustr \<Rightarrow> ustr \<Rightarrow> exn + ustr" where
  "fill_placeholder format text user_prompt =
     (if contains (of_ascii ''{text_to_summarize}'') user_prompt
      then format user_prompt [(''text_to_summarize'', text)]
      else Inr user_prompt)"

definition read_response :: "exn + llm_response \<Rightarrow> exn + ustr" where
  "read_response outcome =
     (case outcome of
        Inl e \<Rightarrow>
          if fst e = LLMManagerError
          then Inl (SummarizerError, [Lit ''LLM interaction failed: '', Str_of (snd e)])
          else Inl (SummarizerError, [Lit ''An unexpected error occurred: '', Str_of (snd e)])
      | Inr (Content c) \<Rightarrow>
          if strip c = [] then Inr (of_ascii ''Summary generation resulted in empty content.'')
          else Inr (strip c)
      | Inr No_message \<Rightarrow>
          Inl (SummarizerError,
               [Lit ''An unexpected error occurred: '',
                Str_of [Lit ''Invalid LLM response format during summarization.'']])
      | Inr (Unreadable e) \<Rightarrow>
          Inl (SummarizerError, [Lit ''An unexpected error occurred: '', Str_of e]))"

text \<open>The result of \<open>summarize_text\<close> and the requests it made to the LLM manager.\<close>

definition summarize_text ::
  "(chat_request \<Rightarrow> exn + llm_response) \<Rightarrow> (ustr \<Rightarrow> (string \<times> ustr) list \<Rightarrow> exn + ustr) \<Rightarrow>
   (ustr \<Rightarrow> bool) \<Rightarrow> (ustr \<Rightarrow> exn + int) \<Rightarrow> provider_defaults \<Rightarrow>
   ustr \<Rightarrow> ustr \<Rightarrow> int option \<Rightarrow> real option \<Rightarrow> ustr option \<Rightarrow> ustr option \<Rightarrow>
   (exn + ustr) \<times> chat_request list" where
  "summarize_text llm format isdigit to_int defaults
       text summary_type max_tokens temperature prompt_template context =
     (if strip text = [] then (Inr [], [])
      else
        case final_max_tokens isdigit to_int defaults max_tokens of
          Inl e \<Rightarrow> (Inl e, [])
        | Inr tokens \<Rightarrow>
            (case prompts format text summary_type prompt_template context of
               Inl e \<Rightarrow> (Inl e, [])
             | Inr (system_prompt, user_prompt) \<Rightarrow>
                 (case fill_placeholder format text user_prompt of
                    Inl e \<Rightarrow> (Inl e, [])
                  | Inr filled \<Rightarrow>
                      (read_response
                         (llm \<lparr>messages = [(of_ascii ''system'', system_prompt),
                                            (of_ascii ''user'', filled)],
                               request_max_tokens = tokens,
                               request_temperature = final_temperature defaults temperature\<rparr>),
                       [\<lparr>messages = [(of_ascii ''system'', system_prompt),
                                     (of_ascii ''user'', filled)],
                         request_max_tokens = tokens,
                         request_temperature = final_temperature defaults temperature\<rparr>]))))"


section \<open>The analysis stage\<close>

text \<open>
  One dictionary of \<open>processed_papers\<close>, and the body of the loop of the AI processing
  stage for one item. \<open>extract_research_keywords\<close> and \<open>summarize\<close> are the two calls the
  loop makes, with \<open>Inl\<close> for an exception. Each call sits in a \<open>try\<close> of its own, and the
  handler first calls \<open>self.logger.error(message, exc_info=True)\<close>, then sets the empty
  keyword list or the placeholder. The logger is loguru's, no part of this repository: it
  is the parameter \<open>log_error\<close>, from the message to the exception the call raises, if any
  (given a keyword argument, loguru formats the message with \<open>str.format\<close>, which raises on
  a brace it cannot fill). An exception raised in a handler leaves the loop. The other
  logging calls of the loop pass no argument besides the message and are left out.
  Next to its result the model returns the calls of the summarizer it made: text and
  summary type.
\<close>

record processed_paper =
  paper_title :: ustr
  paper_authors :: "ustr list"
  published_date :: ustr
  paper_url :: "ustr option"
  paper_pdf_url :: "ustr option"
  original_summary :: "ustr option"
  ai_enhanced_summary :: ustr
  full_text_retrieved :: bool
  full_text_snippet :: "ustr option"
  paper_keywords :: "ustr list"
  paper_source :: ustr
  item_id_internal :: ustr

definition text_for_ai :: "literature_item \<Rightarrow> ustr option" where
  "text_for_ai item = (if truthy (full_text item) then full_text item else abstract item)"

definition summary_type_for_llm :: "literature_item \<Rightarrow> ustr" where
  "summary_type_for_llm item =
     (if truthy (full_text item) then of_ascii ''key_findings''
      else of_ascii ''abstract_enhancement'')"

definition paper :: "literature_item \<Rightarrow> ustr \<Rightarrow> ustr list \<Rightarrow> processed_paper" where
  "paper item ai_summary kws =
     \<lparr>paper_title = title item,
      paper_authors = authors item,
      published_date = (case publication_date item of Some d \<Rightarrow> d | None \<Rightarrow> []),
      paper_url = url item,
      paper_pdf_url = pdf_url item,
      original_summary = abstract item,
      ai_enhanced_summary = ai_summary,
      full_text_retrieved = truthy (full_text item),
      full_text_snippet =
        (case present (full_text item) of
           Some t \<Rightarrow> Some (take 200 t @ of_ascii ''...'')
         | None \<Rightarrow> None),
      paper_keywords = kws,
      paper_source = source item,
      item_id_internal = item_id item\<rparr>"

definition keywords_error_message :: "literature_item \<Rightarrow> exn \<Rightarrow> part list" where
  "keywords_error_message item kw_e =
     [Lit ''Error extracting keywords for '', Text (title item), Lit '': '', Str_of (snd kw_e)]"

definition summarizer_error_message :: "literature_item \<Rightarrow> exn \<Rightarrow> part list" where
  "summarizer_error_message item summ_e =
     [Lit ''Error using Summarizer for '', Text (title item), Lit '': '', Str_of (snd summ_e)]"

text \<open>The two \<open>try\<close> statements: \<open>Inl\<close> is the exception that leaves the handler.\<close>

definition keywords_step ::
  "(ustr \<Rightarrow> exn + ustr list) \<Rightarrow> (part list \<Rightarrow> exn option) \<Rightarrow> literature_item \<Rightarrow> ustr \<Rightarrow>
   exn + ustr list" where
  "keywords_step extract_research_keywords log_error item t =
     (case extract_research_keywords t of
        Inr kws \<Rightarrow> Inr kws
      | Inl kw_e \<Rightarrow>
          (case log_error (keywords_error_message item kw_e) of
             Some e \<Rightarrow> Inl e
           | None \<Rightarrow> Inr []))"

definition summary_step ::
  "(ustr \<Rightarrow> ustr \<Rightarrow> exn + ustr) \<Rightarrow> (part list \<Rightarrow> exn option) \<Rightarrow> literature_item \<Rightarrow> ustr \<Rightarrow>
   exn + ustr" where
  "summary_step summarize log_error item t =
     (case summarize t (summary_type_for_llm item) of
        Inr ai_summary \<Rightarrow> Inr ai_summary
      | Inl summ_e \<Rightarrow>
          (case log_error (summarizer_error_message item summ_e) of
             Some e \<Rightarrow> Inl e
           | None \<Rightarrow> Inr (of_ascii ''AI summary generation failed.'')))"

definition process_item ::
  "(ustr \<Rightarrow> exn + ustr list) \<Rightarrow> (ustr \<Rightarrow> ustr \<Rightarrow> exn + ustr) \<Rightarrow> (part list \<Rightarrow> exn option) \<Rightarrow>
   literature_item \<Rightarrow> (exn + processed_paper) \<times> (ustr \<times> ustr) list" where
  "process_item extract_research_keywords summarize log_error item =
     (case present (text_for_ai item) of
        None \<Rightarrow>
          (Inr (paper item (of_ascii ''No text content available for summarization.'') []), [])
      | Some t \<Rightarrow>
          (case keywords_step extract_research_keywords log_error item t of
             Inl e \<Rightarrow> (Inl e, [])
           | Inr kws \<Rightarrow>
               (case summary_step summarize log_error item t of
                  Inl e \<Rightarrow> (Inl e, [(t, summary_type_for_llm item)])
                | Inr ai_summary \<Rightarrow>
                    (Inr (paper item ai_summary kws), [(t, summary_type_for_llm item)]))))"

text \<open>
  The loop over \<open>retrieved_items\<close>. It appends one dictionary per item and ends at the first
  exception that leaves a handler, which the \<open>except Exception\<close> around the whole stage
  catches: \<open>processed_papers\<close> then holds the entries made before it. The result is that
  list and the exception, if any.
\<close>

fun process_papers ::
  "(ustr \<Rightarrow> exn + ustr list) \<Rightarrow> (ustr \<Rightarrow> ustr \<Rightarrow> exn + ustr) \<Rightarrow> (part list \<Rightarrow> exn option) \<Rightarrow>
   literature_item list \<Rightarrow> processed_paper list \<times> exn option" where
  "process_papers extract_research_keywords summarize log_error [] = ([], None)"
| "process_papers extract_research_keywords summarize log_error (item # rest) =
     (case fst (process_item extract_research_keywords summarize log_error item) of
        Inl e \<Rightarrow> ([], Some e)
      | Inr processed \<Rightarrow>
          (processed # fst (process_papers extract_research_keywords summarize log_error rest),
           snd (process_papers extract_research_keywords summarize log_error rest)))"

text \<open>
  Whether the handlers of an item return: the logging call of each handler that runs for
  the item raises nothing. A handler runs only when its call raised.
\<close>

definition keywords_handler_returns ::
  "(ustr \<Rightarrow> exn + ustr list) \<Rightarrow> (part list \<Rightarrow> exn option) \<Rightarrow> literature_item \<Rightarrow> bool" where
  "keywords_handler_returns extract_research_keywords log_error item =
     (case present (text_for_ai item) of
        None \<Rightarrow> True
      | Some t \<Rightarrow>
          (case extract_research_keywords t of
             Inr kws \<Rightarrow> True
           | Inl kw_e \<Rightarrow> log_error (keywords_error_message item kw_e) = None))"

definition summarizer_handler_returns ::
  "(ustr \<Rightarrow> ustr \<Rightarrow> exn + ustr) \<Rightarrow> (part list \<Rightarrow> exn option) \<Rightarrow> literature_item \<Rightarrow> bool" where
  "summarizer_handler_returns summarize log_error item =
     (case present (text_for_ai item) of
        None \<Rightarrow> True
      | Some t \<Rightarrow>
          (case summarize t (summary_type_for_llm item) of
             Inr ai_summary \<Rightarrow> True
           | Inl summ_e \<Rightarrow> log_error (summarizer_error_message item summ_e) = None))"


section \<open>Keeping the first item of every key\<close>

text \<open>
  Both deduplication loops have one shape: an item with a key already seen is skipped, any
  other item is kept and its key recorded. \<open>keep_first\<close> is that shape for an arbitrary key
  function; the facts about the two loops are proved once, here.
\<close>

fun keep_first :: "('a \<Rightarrow> 'k option) \<Rightarrow> 'k set \<Rightarrow> 'a list \<Rightarrow> 'a list" where
  "keep_first key seen [] = []"
| "keep_first key seen (x # xs) =
     (case key x of
        None \<Rightarrow> x # keep_first key seen xs
      | Some k \<Rightarrow>
          if k \<in> seen then keep_first key seen xs
          else x # keep_first key (insert k seen) xs)"

text \<open>
  \<open>fresh_keys key seen xs\<close>: no key of \<open>xs\<close> is in \<open>seen\<close> and no two items of \<open>xs\<close> share a
  key. Such a list is what \<open>keep_first\<close> returns, and what it leaves as it is.
\<close>

fun fresh_keys :: "('a \<Rightarrow> 'k option) \<Rightarrow> 'k set \<Rightarrow> 'a list \<Rightarrow> bool" where
  "fresh_keys key seen [] = True"
| "fresh_keys key seen (x # xs) =
     (case key x of
        None \<Rightarrow> fresh_keys key seen xs
      | Some k \<Rightarrow> k \<notin> seen \<and> fresh_keys key (insert k seen) xs)"

lemma keep_first_subseq: "subseq (keep_first key seen xs) xs"
  by (induction xs arbitrary: seen) (auto split: option.splits)

lemma keep_first_filter_Some:
  "filter (\<lambda>x. key x = Some k) (keep_first key seen xs) =
     (if k \<in> seen then [] else take 1 (filter (\<lambda>x. key x = Some k) xs))"
proof (induction xs arbitrary: seen)
  case Nil
  then show ?case by simp
next
  case (Cons x xs)
  show ?case
  proof (cases "key x")
    case None
    then show ?thesis using Cons.IH [of seen] by simp
  next
    case (Some k')
    show ?thesis
    proof (cases "k' \<in> seen")
      case True
      then show ?thesis using Some Cons.IH [of seen] by auto
    next
      case False
      then show ?thesis using Some Cons.IH [of "insert k' seen"] by auto
    qed
  qed
qed

lemma keep_first_filter_None:
  "filter (\<lambda>x. key x = None) (keep_first key seen xs) = filter (\<lambda>x. key x = None) xs"
  by (induction xs arbitrary: seen) (auto split: option.splits)

lemma keep_first_filter_unkeyed:
  assumes "\<And>x. P x \<Longrightarrow> key x = None"
  shows "filter P (keep_first key seen xs) = filter P xs"
proof (induction xs arbitrary: seen)
  case Nil
  then show ?case by simp
next
  case (Cons x xs)
  show ?case
  proof (cases "key x")
    case None
    then show ?thesis using Cons.IH [of seen] by simp
  next
    case (Some k)
    with assms have "\<not> P x" by fastforce
    then show ?thesis
      using Some Cons.IH [of seen] Cons.IH [of "insert k seen"] by simp
  qed
qed

lemma dedup_by_id_keep_first:
  "dedup_by_id lower seen items = keep_first (strong_key lower) seen items"
  by (induction items arbitrary: seen)
     (auto simp: strong_key_def present_def split: option.splits)

lemma dedup_by_title_author_keep_first:
  "dedup_by_title_author lower isalnum hash seen items =
     keep_first (\<lambda>x. Some (title_author_key lower isalnum hash x)) seen items"
  by (induction items arbitrary: seen) auto

lemma fresh_keys_keep_first: "fresh_keys key seen (keep_first key seen xs)"
  by (induction xs arbitrary: seen) (auto split: option.splits)

lemma keep_first_fresh_keys: "fresh_keys key seen xs \<Longrightarrow> keep_first key seen xs = xs"
  by (induction xs arbitrary: seen) (auto split: option.splits)

lemma fresh_keys_antimono:
  "fresh_keys key seen' xs \<Longrightarrow> seen \<subseteq> seen' \<Longrightarrow> fresh_keys key seen xs"
proof (induction xs arbitrary: seen seen')
  case Nil
  then show ?case by simp
next
  case (Cons x xs)
  show ?case
  proof (cases "key x")
    case None
    then show ?thesis using Cons.IH [of seen' seen] Cons.prems by simp
  next
    case (Some k)
    then have "k \<notin> seen'" and rest: "fresh_keys key (insert k seen') xs"
      using Cons.prems(1) by simp_all
    moreover have "insert k seen \<subseteq> insert k seen'"
      using Cons.prems(2) by blast
    ultimately show ?thesis
      using Some Cons.IH [of "insert k seen'" "insert k seen"] Cons.prems(2) by auto
  qed
qed

lemma fresh_keys_subseq:
  "subseq ys xs \<Longrightarrow> fresh_keys key seen xs \<Longrightarrow> fresh_keys key seen ys"
proof (induction ys xs arbitrary: seen rule: list_emb.induct)
  case (list_emb_Nil ys)
  then show ?case by simp
next
  case (list_emb_Cons xs ys y)
  have "fresh_keys key seen ys"
  proof (cases "key y")
    case None
    then show ?thesis using list_emb_Cons.prems by simp
  next
    case (Some k)
    then have "fresh_keys key (insert k seen) ys"
      using list_emb_Cons.prems by simp
    then show ?thesis by (rule fresh_keys_antimono) blast
  qed
  then show ?case by (rule list_emb_Cons.IH)
next
  case (list_emb_Cons2 x y xs ys)
  then show ?case by (auto split: option.splits)
qed

lemma dedup_keep_first:
  "dedup lower isalnum hash items =
     keep_first (\<lambda>x. Some (title_author_key lower isalnum hash x)) {}
       (keep_first (strong_key lower) {} items)"
  by (simp add: dedup_def soft_pass_def strong_pass_def dedup_by_id_keep_first
      dedup_by_title_author_keep_first)

lemma dedup_subseq: "subseq (dedup lower isalnum hash items) items"
proof -
  have "subseq (dedup lower isalnum hash items) (keep_first (strong_key lower) {} items)"
    unfolding dedup_keep_first by (rule keep_first_subseq)
  moreover have "subseq (keep_first (strong_key lower) {} items) items"
    by (rule keep_first_subseq)
  ultimately show ?thesis by (rule subseq_order.trans)
qed


section \<open>The strong-identity pass\<close>

text \<open>
  The key of the loop is the identifier of the specification, read from the fields \<open>doi\<close>
  and \<open>arxiv_id\<close>, whenever that identifier is not the empty string; an item with neither
  field has no key.
\<close>

lemma spec_identifier_strong_key:
  "k \<noteq> [] \<Longrightarrow> (spec_identifier lower x = Some k) = (strong_key lower x = Some k)"
  by (cases "doi x"; cases "arxiv_id x")
     (auto simp: spec_identifier_def strong_key_def unique_id_def present_def truthy_def)

lemma no_identifier_no_key:
  "\<not> truthy (doi x) \<and> \<not> truthy (arxiv_id x) \<Longrightarrow> strong_key lower x = None"
  by (cases "doi x"; cases "arxiv_id x")
     (auto simp: strong_key_def unique_id_def present_def truthy_def)

text \<open>
  C1, as the specification words it, fails: the claim has two classes, the items with
  equal DOI keys and, among the items without a DOI, those with equal arXiv ids. The item
  with arXiv id \<open>abc\<close> and no DOI is the first, and only, item of its class, and the pass
  drops it, because an earlier item has the DOI \<open>ABC\<close>: the source keeps the keys of both
  kinds in the one set \<open>seen_ids_for_dedup\<close>.
\<close>

theorem strong_pass_two_classes_counterexample:
  "filter (\<lambda>x. \<not> truthy (doi x) \<and> map_option ascii_lower (arxiv_id x) = Some (of_ascii ''abc''))
     [(new_item (of_ascii ''1'') (of_ascii ''A'') (of_ascii ''s2''))
        \<lparr>doi := Some (of_ascii ''ABC'')\<rparr>,
      (new_item (of_ascii ''2'') (of_ascii ''B'') (of_ascii ''arxiv''))
        \<lparr>arxiv_id := Some (of_ascii ''abc'')\<rparr>] =
     [(new_item (of_ascii ''2'') (of_ascii ''B'') (of_ascii ''arxiv''))
        \<lparr>arxiv_id := Some (of_ascii ''abc'')\<rparr>]
   \<and> strong_pass ascii_lower
     [(new_item (of_ascii ''1'') (of_ascii ''A'') (of_ascii ''s2''))
        \<lparr>doi := Some (of_ascii ''ABC'')\<rparr>,
      (new_item (of_ascii ''2'') (of_ascii ''B'') (of_ascii ''arxiv''))
        \<lparr>arxiv_id := Some (of_ascii ''abc'')\<rparr>] =
     [(new_item (of_ascii ''1'') (of_ascii ''A'') (of_ascii ''s2''))
        \<lparr>doi := Some (of_ascii ''ABC'')\<rparr>]"
  by (simp add: strong_pass_def unique_id_def present_def truthy_def new_item_def
      ascii_lower_def of_ascii_def)

text \<open>
  C1, amended. Every item has at most one identifier: its DOI when it has one, else its
  arXiv id, case-normalized; the identifiers of both kinds are compared with each other.
  Among the items with one and the same identifier, exactly the first one of the input
  survives the pass; every item with neither a DOI nor an arXiv id survives; the
  survivors keep their input order. Two items whose DOIs differ only in case, \<open>10.1/X\<close>
  titled A and \<open>10.1/x\<close> titled B, leave the item titled A alone, and so do two items
  without DOI whose arXiv ids differ only in case.
\<close>

theorem strong_pass_first_seen:
  "(k \<noteq> [] \<longrightarrow>
      filter (\<lambda>x. spec_identifier lower x = Some k) (strong_pass lower items) =
        take 1 (filter (\<lambda>x. spec_identifier lower x = Some k) items))
   \<and> filter (\<lambda>x. \<not> truthy (doi x) \<and> \<not> truthy (arxiv_id x)) (strong_pass lower items) =
       filter (\<lambda>x. \<not> truthy (doi x) \<and> \<not> truthy (arxiv_id x)) items
   \<and> subseq (strong_pass lower items) items
   \<and> strong_pass ascii_lower
       [(new_item (of_ascii ''1'') (of_ascii ''A'') (of_ascii ''arxiv''))
          \<lparr>doi := Some (of_ascii ''10.1/X'')\<rparr>,
        (new_item (of_ascii ''2'') (of_ascii ''B'') (of_ascii ''arxiv''))
          \<lparr>doi := Some (of_ascii ''10.1/x'')\<rparr>] =
       [(new_item (of_ascii ''1'') (of_ascii ''A'') (of_ascii ''arxiv''))
          \<lparr>doi := Some (of_ascii ''10.1/X'')\<rparr>]
   \<and> strong_pass ascii_lower
       [(new_item (of_ascii ''1'') (of_ascii ''A'') (of_ascii ''arxiv''))
          \<lparr>arxiv_id := Some (of_ascii ''2301.00001V1'')\<rparr>,
        (new_item (of_ascii ''2'') (of_ascii ''B'') (of_ascii ''s2''))
          \<lparr>arxiv_id := Some (of_ascii ''2301.00001v1'')\<rparr>] =
       [(new_item (of_ascii ''1'') (of_ascii ''A'') (of_ascii ''arxiv''))
          \<lparr>arxiv_id := Some (of_ascii ''2301.00001V1'')\<rparr>]"
proof -
  have first: "k \<noteq> [] \<longrightarrow>
      filter (\<lambda>x. spec_identifier lower x = Some k) (strong_pass lower items) =
        take 1 (filter (\<lambda>x. spec_identifier lower x = Some k) items)"
  proof
    assume "k \<noteq> []"
    then have "(\<lambda>x. spec_identifier lower x = Some k) = (\<lambda>x. strong_key lower x = Some k)"
      by (simp add: spec_identifier_strong_key)
    then show "filter (\<lambda>x. spec_identifier lower x = Some k) (strong_pass lower items) =
        take 1 (filter (\<lambda>x. spec_identifier lower x = Some k) items)"
      by (simp add: strong_pass_def dedup_by_id_keep_first keep_first_filter_Some)
  qed
  have unkeyed: "filter (\<lambda>x. \<not> truthy (doi x) \<and> \<not> truthy (arxiv_id x)) (strong_pass lower items) =
       filter (\<lambda>x. \<not> truthy (doi x) \<and> \<not> truthy (arxiv_id x)) items"
    unfolding strong_pass_def dedup_by_id_keep_first
    by (rule keep_first_filter_unkeyed) (rule no_identifier_no_key)
  have order: "subseq (strong_pass lower items) items"
    by (simp add: strong_pass_def dedup_by_id_keep_first keep_first_subseq)
  have doi_example: "strong_pass ascii_lower
       [(new_item (of_ascii ''1'') (of_ascii ''A'') (of_ascii ''arxiv''))
          \<lparr>doi := Some (of_ascii ''10.1/X'')\<rparr>,
        (new_item (of_ascii ''2'') (of_ascii ''B'') (of_ascii ''arxiv''))
          \<lparr>doi := Some (of_ascii ''10.1/x'')\<rparr>] =
       [(new_item (of_ascii ''1'') (of_ascii ''A'') (of_ascii ''arxiv''))
          \<lparr>doi := Some (of_ascii ''10.1/X'')\<rparr>]"
    by (simp add: strong_pass_def unique_id_def present_def new_item_def
        ascii_lower_def of_ascii_def)
  have arxiv_example: "strong_pass ascii_lower
       [(new_item (of_ascii ''1'') (of_ascii ''A'') (of_ascii ''arxiv''))
          \<lparr>arxiv_id := Some (of_ascii ''2301.00001V1'')\<rparr>,
        (new_item (of_ascii ''2'') (of_ascii ''B'') (of_ascii ''s2''))
          \<lparr>arxiv_id := Some (of_ascii ''2301.00001v1'')\<rparr>] =
       [(new_item (of_ascii ''1'') (of_ascii ''A'') (of_ascii ''arxiv''))
          \<lparr>arxiv_id := Some (of_ascii ''2301.00001V1'')\<rparr>]"
    by (simp add: strong_pass_def unique_id_def present_def new_item_def
        ascii_lower_def of_ascii_def)
  from first unkeyed order doi_example arxiv_example show ?thesis by blast
qed

theorem strong_pass_first_seen_witness:
  "of_ascii ''abc'' \<noteq> []
   \<and> filter (\<lambda>x. spec_identifier ascii_lower x = Some (of_ascii ''abc''))
       (strong_pass ascii_lower
          [new_item (of_ascii ''0'') (of_ascii ''Z'') (of_ascii ''arxiv''),
           (new_item (of_ascii ''1'') (of_ascii ''A'') (of_ascii ''s2''))
             \<lparr>doi := Some (of_ascii ''ABC'')\<rparr>,
           (new_item (of_ascii ''2'') (of_ascii ''B'') (of_ascii ''arxiv''))
             \<lparr>arxiv_id := Some (of_ascii ''abc'')\<rparr>,
           (new_item (of_ascii ''3'') (of_ascii ''C'') (of_ascii ''arxiv''))
             \<lparr>doi := Some (of_ascii ''Abc''), arxiv_id := Some (of_ascii ''xyz'')\<rparr>]) =
       [(new_item (of_ascii ''1'') (of_ascii ''A'') (of_ascii ''s2''))
          \<lparr>doi := Some (of_ascii ''ABC'')\<rparr>]"
proof -
  have nonempty: "of_ascii ''abc'' \<noteq> []"
    by (simp add: of_ascii_def)
  show ?thesis
    using strong_pass_first_seen
      [where k = "of_ascii ''abc''" and lower = ascii_lower
         and items = "[new_item (of_ascii ''0'') (of_ascii ''Z'') (of_ascii ''arxiv''),
           (new_item (of_ascii ''1'') (of_ascii ''A'') (of_ascii ''s2''))
             \<lparr>doi := Some (of_ascii ''ABC'')\<rparr>,
           (new_item (of_ascii ''2'') (of_ascii ''B'') (of_ascii ''arxiv''))
             \<lparr>arxiv_id := Some (of_ascii ''abc'')\<rparr>,
           (new_item (of_ascii ''3'') (of_ascii ''C'') (of_ascii ''arxiv''))
             \<lparr>doi := Some (of_ascii ''Abc''), arxiv_id := Some (of_ascii ''xyz'')\<rparr>]"]
      nonempty
    by (simp add: spec_identifier_def truthy_def new_item_def ascii_lower_def of_ascii_def)
qed


section \<open>The soft-identity pass\<close>

text \<open>
  C3, as the specification words it, fails: two items with the title \<open>Deep Learning\<close> whose
  first authors are \<open>J. Smith\<close> and \<open>J Smith\<close> agree on the pair of the specification (the
  full stop is neither alphanumeric nor a space), and the pass keeps both, because the
  source only lowercases and strips the ends of the author name. The hash is the identity
  here, so no collision of hashes is involved.
\<close>

theorem soft_pass_spec_pair_counterexample:
  "spec_title_author_pair ascii_lower ascii_isalnum
     ((new_item (of_ascii ''1'') (of_ascii ''Deep Learning'') (of_ascii ''arxiv''))
        \<lparr>authors := [of_ascii ''J. Smith'']\<rparr>) =
   spec_title_author_pair ascii_lower ascii_isalnum
     ((new_item (of_ascii ''2'') (of_ascii ''Deep Learning'') (of_ascii ''arxiv''))
        \<lparr>authors := [of_ascii ''J Smith'']\<rparr>)
   \<and> soft_pass ascii_lower ascii_isalnum (\<lambda>p. p)
       [(new_item (of_ascii ''1'') (of_ascii ''Deep Learning'') (of_ascii ''arxiv''))
          \<lparr>authors := [of_ascii ''J. Smith'']\<rparr>,
        (new_item (of_ascii ''2'') (of_ascii ''Deep Learning'') (of_ascii ''arxiv''))
          \<lparr>authors := [of_ascii ''J Smith'']\<rparr>] =
       [(new_item (of_ascii ''1'') (of_ascii ''Deep Learning'') (of_ascii ''arxiv''))
          \<lparr>authors := [of_ascii ''J. Smith'']\<rparr>,
        (new_item (of_ascii ''2'') (of_ascii ''Deep Learning'') (of_ascii ''arxiv''))
          \<lparr>authors := [of_ascii ''J Smith'']\<rparr>]"
  by (simp add: spec_title_author_pair_def spec_normalize_def soft_pass_def
      title_author_key_def norm_title_def first_author_norm_def strip_def isspace_def
      new_item_def ascii_lower_def ascii_isalnum_def of_ascii_def)

text \<open>
  C3, amended. Two items collide exactly when their keys are equal, the key being the hash
  of the pair of the source: the title lowercased, reduced to its alphanumeric and
  whitespace characters and stripped at both ends, and the first author lowercased and
  stripped at both ends only (\<open>unknown_author\<close> when there is none). Of the items with one
  key exactly the first one of the input survives, in input order. Items that agree on the
  pair have the same key; where the hash is injective, equal keys are the same as equal
  pairs.
\<close>

theorem soft_pass_first_seen:
  "filter (\<lambda>x. title_author_key lower isalnum hash x = k) (soft_pass lower isalnum hash items) =
     take 1 (filter (\<lambda>x. title_author_key lower isalnum hash x = k) items)
   \<and> subseq (soft_pass lower isalnum hash items) items
   \<and> (norm_title lower isalnum x = norm_title lower isalnum y
        \<and> first_author_norm lower x = first_author_norm lower y \<longrightarrow>
        title_author_key lower isalnum hash x = title_author_key lower isalnum hash y)
   \<and> (inj hash \<longrightarrow>
        (title_author_key lower isalnum hash x = title_author_key lower isalnum hash y) =
        (norm_title lower isalnum x = norm_title lower isalnum y
         \<and> first_author_norm lower x = first_author_norm lower y))"
proof -
  have "filter (\<lambda>x. Some (title_author_key lower isalnum hash x) = Some k)
          (soft_pass lower isalnum hash items) =
        take 1 (filter (\<lambda>x. Some (title_author_key lower isalnum hash x) = Some k) items)"
    unfolding soft_pass_def dedup_by_title_author_keep_first
    by (simp only: keep_first_filter_Some empty_iff if_False)
  then have first: "filter (\<lambda>x. title_author_key lower isalnum hash x = k)
          (soft_pass lower isalnum hash items) =
        take 1 (filter (\<lambda>x. title_author_key lower isalnum hash x = k) items)"
    by simp
  have order: "subseq (soft_pass lower isalnum hash items) items"
    by (simp add: soft_pass_def dedup_by_title_author_keep_first keep_first_subseq)
  have pairs: "inj hash \<longrightarrow>
        (title_author_key lower isalnum hash x = title_author_key lower isalnum hash y) =
        (norm_title lower isalnum x = norm_title lower isalnum y
         \<and> first_author_norm lower x = first_author_norm lower y)"
    by (auto simp: title_author_key_def dest: injD)
  have same: "norm_title lower isalnum x = norm_title lower isalnum y
        \<and> first_author_norm lower x = first_author_norm lower y \<longrightarrow>
        title_author_key lower isalnum hash x = title_author_key lower isalnum hash y"
    by (simp add: title_author_key_def)
  from first order same pairs show ?thesis by blast
qed

theorem soft_pass_first_seen_witness:
  "filter (\<lambda>x. title_author_key ascii_lower ascii_isalnum (\<lambda>p. p) x =
               (of_ascii ''deep learning'', of_ascii ''j. smith''))
     (soft_pass ascii_lower ascii_isalnum (\<lambda>p. p)
        [(new_item (of_ascii ''1'') (of_ascii ''Deep Learning!'') (of_ascii ''arxiv''))
           \<lparr>authors := [of_ascii ''J. Smith'']\<rparr>,
         (new_item (of_ascii ''2'') (of_ascii ''deep learning'') (of_ascii ''arxiv''))
           \<lparr>authors := [of_ascii '' j. smith'', of_ascii ''A. Jones'']\<rparr>]) =
     [(new_item (of_ascii ''1'') (of_ascii ''Deep Learning!'') (of_ascii ''arxiv''))
        \<lparr>authors := [of_ascii ''J. Smith'']\<rparr>]
   \<and> inj (\<lambda>p :: ustr \<times> ustr. p)
   \<and> title_author_key ascii_lower ascii_isalnum (\<lambda>p. p)
       ((new_item (of_ascii ''1'') (of_ascii ''Deep Learning!'') (of_ascii ''arxiv''))
          \<lparr>authors := [of_ascii ''J. Smith'']\<rparr>) =
     title_author_key ascii_lower ascii_isalnum (\<lambda>p. p)
       ((new_item (of_ascii ''2'') (of_ascii ''deep learning'') (of_ascii ''arxiv''))
          \<lparr>authors := [of_ascii '' j. smith'', of_ascii ''A. Jones'']\<rparr>)"
  using soft_pass_first_seen [of ascii_lower ascii_isalnum "\<lambda>p. p"
      "(of_ascii ''deep learning'', of_ascii ''j. smith'')"
      "[(new_item (of_ascii ''1'') (of_ascii ''Deep Learning!'') (of_ascii ''arxiv''))
           \<lparr>authors := [of_ascii ''J. Smith'']\<rparr>,
         (new_item (of_ascii ''2'') (of_ascii ''deep learning'') (of_ascii ''arxiv''))
           \<lparr>authors := [of_ascii '' j. smith'', of_ascii ''A. Jones'']\<rparr>]"
      "(new_item (of_ascii ''1'') (of_ascii ''Deep Learning!'') (of_ascii ''arxiv''))
          \<lparr>authors := [of_ascii ''J. Smith'']\<rparr>"
      "(new_item (of_ascii ''2'') (of_ascii ''deep learning'') (of_ascii ''arxiv''))
          \<lparr>authors := [of_ascii '' j. smith'', of_ascii ''A. Jones'']\<rparr>"]
  by (simp add: title_author_key_def norm_title_def first_author_norm_def strip_def
      isspace_def new_item_def ascii_lower_def ascii_isalnum_def of_ascii_def)


section \<open>Idempotence, order and truncation\<close>

text \<open>
  C4. Running the deduplicator (the strong-identity pass, then the soft-identity pass) on
  its own output returns that output: the same items in the same order.
\<close>

theorem dedup_idempotent:
  "dedup lower isalnum hash (dedup lower isalnum hash items) = dedup lower isalnum hash items"
proof -
  let ?S = "strong_key lower"
  let ?T = "\<lambda>x. Some (title_author_key lower isalnum hash x)"
  let ?ys = "keep_first ?S {} items"
  let ?d = "keep_first ?T {} ?ys"
  have "subseq ?d ?ys" by (rule keep_first_subseq)
  moreover have "fresh_keys ?S {} ?ys" by (rule fresh_keys_keep_first)
  ultimately have "fresh_keys ?S {} ?d" by (rule fresh_keys_subseq)
  then have strong: "keep_first ?S {} ?d = ?d" by (rule keep_first_fresh_keys)
  have "fresh_keys ?T {} ?d" by (rule fresh_keys_keep_first)
  then have soft: "keep_first ?T {} ?d = ?d" by (rule keep_first_fresh_keys)
  show ?thesis unfolding dedup_keep_first by (simp only: strong soft)
qed

text \<open>
  C5. The items that survive both passes are a subsequence of the input, before and after
  the truncation. For a count \<open>max_papers\<close> (not negative) the truncation keeps the first
  \<open>max_papers\<close> survivors in that order, nothing re-ranked: exactly \<open>max_papers\<close> of them
  when more survive, all of them otherwise.
\<close>

theorem dedup_order_and_truncation:
  "subseq (dedup lower isalnum hash items) items
   \<and> subseq (limit_papers max_papers (dedup lower isalnum hash items)) items
   \<and> (0 \<le> max_papers \<longrightarrow>
        limit_papers max_papers (dedup lower isalnum hash items) =
          take (nat max_papers) (dedup lower isalnum hash items))
   \<and> (0 \<le> max_papers \<and> max_papers < int (length (dedup lower isalnum hash items)) \<longrightarrow>
        length (limit_papers max_papers (dedup lower isalnum hash items)) = nat max_papers)
   \<and> (int (length (dedup lower isalnum hash items)) \<le> max_papers \<longrightarrow>
        limit_papers max_papers (dedup lower isalnum hash items) =
          dedup lower isalnum hash items)"
proof -
  let ?d = "dedup lower isalnum hash items"
  have order: "subseq ?d items" by (rule dedup_subseq)
  have "prefix (limit_papers max_papers ?d) ?d"
    by (simp add: limit_papers_def slice_to_def take_is_prefix)
  then have "subseq (limit_papers max_papers ?d) ?d" by (rule prefix_imp_subseq)
  then have cut: "subseq (limit_papers max_papers ?d) items"
    using order by (rule subseq_order.trans)
  have first: "0 \<le> max_papers \<longrightarrow> limit_papers max_papers ?d = take (nat max_papers) ?d"
    by (simp add: limit_papers_def slice_to_def)
  have count: "0 \<le> max_papers \<and> max_papers < int (length ?d) \<longrightarrow>
      length (limit_papers max_papers ?d) = nat max_papers"
    by (auto simp: limit_papers_def slice_to_def)
  have all: "int (length ?d) \<le> max_papers \<longrightarrow> limit_papers max_papers ?d = ?d"
    by (simp add: limit_papers_def)
  from order cut first count all show ?thesis by blast
qed

theorem dedup_order_and_truncation_witness:
  "(0::int) \<le> 1
   \<and> (1::int) < int (length (dedup ascii_lower ascii_isalnum (\<lambda>p. p)
        [new_item (of_ascii ''1'') (of_ascii ''A'') (of_ascii ''arxiv''),
         new_item (of_ascii ''2'') (of_ascii ''B'') (of_ascii ''arxiv''),
         new_item (of_ascii ''3'') (of_ascii ''a'') (of_ascii ''arxiv''),
         new_item (of_ascii ''4'') (of_ascii ''C'') (of_ascii ''arxiv'')]))
   \<and> limit_papers 1 (dedup ascii_lower ascii_isalnum (\<lambda>p. p)
        [new_item (of_ascii ''1'') (of_ascii ''A'') (of_ascii ''arxiv''),
         new_item (of_ascii ''2'') (of_ascii ''B'') (of_ascii ''arxiv''),
         new_item (of_ascii ''3'') (of_ascii ''a'') (of_ascii ''arxiv''),
         new_item (of_ascii ''4'') (of_ascii ''C'') (of_ascii ''arxiv'')]) =
       [new_item (of_ascii ''1'') (of_ascii ''A'') (of_ascii ''arxiv'')]
   \<and> limit_papers 5 (dedup ascii_lower ascii_isalnum (\<lambda>p. p)
        [new_item (of_ascii ''1'') (of_ascii ''A'') (of_ascii ''arxiv''),
         new_item (of_ascii ''2'') (of_ascii ''B'') (of_ascii ''arxiv''),
         new_item (of_ascii ''3'') (of_ascii ''a'') (of_ascii ''arxiv''),
         new_item (of_ascii ''4'') (of_ascii ''C'') (of_ascii ''arxiv'')]) =
       [new_item (of_ascii ''1'') (of_ascii ''A'') (of_ascii ''arxiv''),
        new_item (of_ascii ''2'') (of_ascii ''B'') (of_ascii ''arxiv''),
        new_item (of_ascii ''4'') (of_ascii ''C'') (of_ascii ''arxiv'')]"
  using dedup_order_and_truncation [of ascii_lower ascii_isalnum "\<lambda>p. p"
      "[new_item (of_ascii ''1'') (of_ascii ''A'') (of_ascii ''arxiv''),
         new_item (of_ascii ''2'') (of_ascii ''B'') (of_ascii ''arxiv''),
         new_item (of_ascii ''3'') (of_ascii ''a'') (of_ascii ''arxiv''),
         new_item (of_ascii ''4'') (of_ascii ''C'') (of_ascii ''arxiv'')]" 1]
    dedup_order_and_truncation [of ascii_lower ascii_isalnum "\<lambda>p. p"
      "[new_item (of_ascii ''1'') (of_ascii ''A'') (of_ascii ''arxiv''),
         new_item (of_ascii ''2'') (of_ascii ''B'') (of_ascii ''arxiv''),
         new_item (of_ascii ''3'') (of_ascii ''a'') (of_ascii ''arxiv''),
         new_item (of_ascii ''4'') (of_ascii ''C'') (of_ascii ''arxiv'')]" 5]
  by (simp add: dedup_def soft_pass_def strong_pass_def unique_id_def present_def
      title_author_key_def norm_title_def first_author_norm_def strip_def
      isspace_def new_item_def ascii_lower_def ascii_isalnum_def of_ascii_def)


section \<open>Query translation\<close>

lemma has_chinese_iff: "has_chinese query = (\<exists>c\<in>set query. 19968 \<le> c \<and> c \<le> 40959)"
  by (simp add: has_chinese_def is_chinese_def list_ex_iff)

text \<open>
  C9. \<open>translate_chinese_query\<close> returns its argument unchanged for a string with no code
  point in the range U+4E00 to U+9FFF (19968 to 40959), for the empty string and for a
  value that is no string; \<open>search\<close> then sends the query as it was given.
\<close>

theorem translate_identity_without_chinese:
  "((\<forall>c\<in>set query. c < 19968 \<or> 40959 < c) \<longrightarrow>
      translate_chinese_query (Str query) = Str query
      \<and> search_query (search_request self_max_results (Str query) max_results) = Str query)
   \<and> translate_chinese_query (Str []) = Str []
   \<and> translate_chinese_query (NotStr v) = NotStr v"
  by (auto simp: has_chinese_iff search_request_def)

theorem translate_identity_without_chinese_witness:
  "\<not> has_chinese (of_ascii ''graph neural networks'')
   \<and> translate_chinese_query (Str (of_ascii ''graph neural networks'')) =
       Str (of_ascii ''graph neural networks'')
   \<and> search_query (search_request 100 (Str (of_ascii ''graph neural networks'')) 10) =
       Str (of_ascii ''graph neural networks'')"
  using translate_identity_without_chinese
    [where query = "of_ascii ''graph neural networks''" and self_max_results = 100
       and max_results = 10]
  by (simp add: has_chinese_iff of_ascii_def)

text \<open>
  C6, as the specification words it, fails: the query made of \<open>a\<close>, the stopword U+7684
  and \<open>b\<close> is translated to \<open>a b\<close>, which has two characters that are not spaces, fewer
  than three, and yet it is sent as it is and not replaced by \<open>machine learning\<close>. The test
  of the source is on the length of the stripped string, and the space between the two
  letters counts.
\<close>

theorem translate_near_empty_counterexample:
  "has_chinese [97, 30340, 98]
   \<and> cleaned [97, 30340, 98] = of_ascii ''a b''
   \<and> length (filter (\<lambda>c. \<not> isspace c) (cleaned [97, 30340, 98])) = 2
   \<and> search_query (search_request 100 (Str [97, 30340, 98]) 10) = Str (of_ascii ''a b'')
   \<and> of_ascii ''a b'' \<noteq> of_ascii ''machine learning''"
  by (simp add: has_chinese_iff search_request_def translate_text_def cleaned_def
      CHINESE_TO_ENGLISH_def chinese_stopwords_def split_def strip_def isspace_def of_ascii_def)

text \<open>
  The words \<open>split\<close> returns are not empty and hold no whitespace, so joining them
  leaves no whitespace at either end: stripping \<open>cleaned\<close> changes nothing.
\<close>

lemma split_from_words:
  "\<forall>c\<in>set word. \<not> isspace c \<Longrightarrow>
   \<forall>w\<in>set (split_from word s). w \<noteq> [] \<and> (\<forall>c\<in>set w. \<not> isspace c)"
proof (induction s arbitrary: word)
  case Nil
  then show ?case by simp
next
  case (Cons c cs)
  have empty: "\<forall>w\<in>set (split_from [] cs). w \<noteq> [] \<and> (\<forall>c\<in>set w. \<not> isspace c)"
    by (rule Cons.IH) simp
  show ?case
  proof (cases "isspace c")
    case True
    then show ?thesis using empty Cons.prems by (cases "word = []") simp_all
  next
    case False
    with Cons.prems have "\<forall>x\<in>set (word @ [c]). \<not> isspace x" by simp
    then have "\<forall>w\<in>set (split_from (word @ [c]) cs). w \<noteq> [] \<and> (\<forall>c\<in>set w. \<not> isspace c)"
      by (rule Cons.IH)
    with False show ?thesis by simp
  qed
qed

lemma strip_unchanged:
  assumes "s \<noteq> []" and "\<not> isspace (hd s)" and "\<not> isspace (last s)"
  shows "strip s = s"
proof -
  from assms(1,2) have front: "dropWhile isspace s = s"
    by (cases s) simp_all
  from assms(1,3) have "\<not> isspace (hd (rev s))"
    by (simp add: hd_rev)
  moreover from assms(1) have "rev s \<noteq> []" by simp
  ultimately have "dropWhile isspace (rev s) = rev s"
    by (cases "rev s") simp_all
  with front show ?thesis by (simp add: strip_def)
qed

lemma join_ends:
  "ws \<noteq> [] \<Longrightarrow> \<forall>w\<in>set ws. w \<noteq> [] \<Longrightarrow>
   join sep ws \<noteq> [] \<and> hd (join sep ws) = hd (hd ws) \<and> last (join sep ws) = last (last ws)"
proof (induction sep ws rule: join.induct)
  case (1 sep)
  then show ?case by simp
next
  case (2 sep w)
  then show ?case by simp
next
  case (3 sep w v vs)
  then have "join sep (v # vs) \<noteq> []" and "last (join sep (v # vs)) = last (last (v # vs))"
    by simp_all
  moreover from 3 have "w \<noteq> []" by simp
  ultimately show ?case by simp
qed

lemma strip_join_split: "strip (join sep (split s)) = join sep (split s)"
proof (cases "split s = []")
  case True
  then show ?thesis by (simp add: strip_def)
next
  case False
  have words: "\<forall>w\<in>set (split s). w \<noteq> [] \<and> (\<forall>c\<in>set w. \<not> isspace c)"
    unfolding split_def by (rule split_from_words) simp
  then have nonempty: "\<forall>w\<in>set (split s). w \<noteq> []" by blast
  from False have "hd (split s) \<in> set (split s)" and "last (split s) \<in> set (split s)"
    by simp_all
  with words have first: "\<not> isspace (hd (hd (split s)))"
    and final: "\<not> isspace (last (last (split s)))"
    by (metis hd_in_set, metis last_in_set)
  from join_ends [OF False nonempty, of sep]
  have "join sep (split s) \<noteq> []"
    and "hd (join sep (split s)) = hd (hd (split s))"
    and "last (join sep (split s)) = last (last (split s))"
    by simp_all
  with first final show ?thesis by (simp add: strip_unchanged)
qed

lemma strip_cleaned: "strip (cleaned query) = cleaned query"
  unfolding cleaned_def by (rule strip_join_split)

lemma deep_learning_cleaned:
  "cleaned [28145, 24230, 23398, 20064] = of_ascii ''deep learning''"
  by (simp add: cleaned_def CHINESE_TO_ENGLISH_def chinese_stopwords_def split_def
      isspace_def of_ascii_def)

lemma translate_text_cases:
  "translate_text query =
     (if length (cleaned query) < 3 then of_ascii ''machine learning'' else cleaned query)"
  by (auto simp: translate_text_def strip_cleaned)

lemma deep_learning_translated:
  "translate_text [28145, 24230, 23398, 20064] = of_ascii ''deep learning''"
  unfolding translate_text_cases deep_learning_cleaned
  by (simp add: of_ascii_def)

lemma default_query_stripped:
  "strip (of_ascii ''machine learning'') = of_ascii ''machine learning''"
  by (simp add: strip_def isspace_def of_ascii_def)

text \<open>
  C6, amended. A query with a Chinese character is sent translated: keywords replaced from
  the table, stopwords removed, the words joined by single spaces. The default
  \<open>machine learning\<close> is substituted when that result has fewer than three characters, the
  spaces between words counted; otherwise the result is sent. What is sent always has
  three characters or more and no whitespace at its ends, and the four code points of the
  Chinese for deep learning are sent as \<open>deep learning\<close>.
\<close>

theorem chinese_query_dispatch:
  "(has_chinese query \<longrightarrow>
      search_query (search_request self_max_results (Str query :: 'v pyval) max_results) =
        Str (translate_text query)
      \<and> 3 \<le> length (translate_text query)
      \<and> strip (translate_text query) = translate_text query
      \<and> (length (cleaned query) < 3 \<longrightarrow>
           translate_text query = of_ascii ''machine learning'')
      \<and> (3 \<le> length (cleaned query) \<longrightarrow> translate_text query = cleaned query))
   \<and> search_query (search_request self_max_results (Str [28145, 24230, 23398, 20064]) max_results) =
       Str (of_ascii ''deep learning'')"
proof -
  have nonempty: "has_chinese query \<Longrightarrow> query \<noteq> []"
    by (auto simp: has_chinese_iff)
  have dispatch: "has_chinese query \<Longrightarrow>
      search_query (search_request self_max_results (Str query) max_results) =
        Str (translate_text query)"
    using nonempty by (simp add: search_request_def)
  have long: "3 \<le> length (translate_text query)"
    by (simp add: translate_text_cases of_ascii_def)
  have stripped: "strip (translate_text query) = translate_text query"
    by (simp add: translate_text_cases strip_cleaned default_query_stripped)
  have default: "length (cleaned query) < 3 \<longrightarrow>
      translate_text query = of_ascii ''machine learning''"
    by (simp add: translate_text_cases)
  have kept: "3 \<le> length (cleaned query) \<longrightarrow> translate_text query = cleaned query"
    by (simp add: translate_text_cases)
  have "has_chinese [28145, 24230, 23398, 20064]"
    by (simp add: has_chinese_iff)
  then have example:
    "search_query (search_request self_max_results (Str [28145, 24230, 23398, 20064]) max_results) =
       Str (of_ascii ''deep learning'')"
    by (simp add: search_request_def deep_learning_translated)
  from dispatch long stripped default kept example show ?thesis by blast
qed

theorem chinese_query_dispatch_witness:
  "has_chinese [30740, 31350, 32508, 36848]
   \<and> 3 \<le> length (cleaned [30740, 31350, 32508, 36848])
   \<and> search_query (search_request 100 (Str [30740, 31350, 32508, 36848] :: unit pyval) 10) =
       Str (of_ascii ''survey'')
   \<and> has_chinese [30340]
   \<and> length (cleaned [30340]) < 3
   \<and> search_query (search_request 100 (Str [30340] :: unit pyval) 10) = Str (of_ascii ''machine learning'')"
proof -
  have survey: "has_chinese [30740, 31350, 32508, 36848]"
    by (simp add: has_chinese_iff)
  have survey_cleaned: "cleaned [30740, 31350, 32508, 36848] = of_ascii ''survey''"
    by (simp add: cleaned_def CHINESE_TO_ENGLISH_def chinese_stopwords_def split_def
        isspace_def of_ascii_def)
  have survey_long: "3 \<le> length (cleaned [30740, 31350, 32508, 36848])"
    unfolding survey_cleaned by (simp add: of_ascii_def)
  have stopword: "has_chinese [30340]"
    by (simp add: has_chinese_iff)
  have stopword_cleaned: "cleaned [30340] = []"
    by (simp add: cleaned_def CHINESE_TO_ENGLISH_def chinese_stopwords_def split_def
        isspace_def of_ascii_def)
  have stopword_short: "length (cleaned [30340]) < 3"
    unfolding stopword_cleaned by simp
  note survey_case = chinese_query_dispatch
      [where 'v = unit and query = "[30740, 31350, 32508, 36848]" and self_max_results = 100
         and max_results = 10]
  note stopword_case = chinese_query_dispatch
      [where 'v = unit and query = "[30340]" and self_max_results = 100 and max_results = 10]
  have "search_query (search_request 100 (Str [30740, 31350, 32508, 36848] :: unit pyval) 10) =
      Str (translate_text [30740, 31350, 32508, 36848])"
    using survey_case survey by blast
  moreover have "translate_text [30740, 31350, 32508, 36848] =
      cleaned [30740, 31350, 32508, 36848]"
    using survey_case survey survey_long by blast
  ultimately have survey_sent:
    "search_query (search_request 100 (Str [30740, 31350, 32508, 36848] :: unit pyval) 10) =
       Str (of_ascii ''survey'')"
    by (simp only: survey_cleaned)
  have "search_query (search_request 100 (Str [30340] :: unit pyval) 10) =
      Str (translate_text [30340])"
    using stopword_case stopword by blast
  moreover have "translate_text [30340] = of_ascii ''machine learning''"
    using stopword_case stopword stopword_short by blast
  ultimately have stopword_sent:
    "search_query (search_request 100 (Str [30340] :: unit pyval) 10) =
       Str (of_ascii ''machine learning'')"
    by (simp only:)
  from survey survey_long survey_sent stopword stopword_short stopword_sent
  show ?thesis by blast
qed


section \<open>The search timeout\<close>

text \<open>
  C8, as the specification words it, fails: when the wait of 45 seconds runs out, \<open>search\<close>
  raises a plain \<open>Exception\<close> with the message below, not an \<open>OperationTimeoutError\<close>.
\<close>

theorem search_timeout_counterexample:
  "search (\<lambda>request timeout. TimedOut) (\<lambda>result. Inr result) 100
       (Str (of_ascii ''deep learning'')) 10 =
     Inl (Exception, [Lit ''ArXiv search timed out after 45 seconds''])
   \<and> Exception \<noteq> OperationTimeoutError"
  by (simp add: search_def)

text \<open>
  C8, amended. \<open>search\<close> waits for the arXiv client with a timeout of 45 seconds. When the
  wait times out it raises the built-in \<open>Exception\<close> with the message
  \<open>ArXiv search timed out after 45 seconds\<close>, and it raises that only then; no outcome of
  \<open>search\<close> is an \<open>OperationTimeoutError\<close>.
\<close>

theorem search_timeout:
  "(wait_for (search_request self_max_results (query :: 'v pyval) max_results) 45 = TimedOut \<longrightarrow>
      search wait_for (convert :: 'r \<Rightarrow> exn + literature_item) self_max_results query max_results =
        Inl (Exception, [Lit ''ArXiv search timed out after 45 seconds'']))
   \<and> (wait_for (search_request self_max_results query max_results) 45 = Done results \<longrightarrow>
      search wait_for convert self_max_results query max_results \<noteq>
        Inl (Exception, [Lit ''ArXiv search timed out after 45 seconds'']))
   \<and> search wait_for convert self_max_results query max_results \<noteq>
        Inl (OperationTimeoutError, message)"
  by (auto simp: search_def split: awaited.splits sum.splits)

theorem search_timeout_witness:
  "(\<lambda>request timeout. if timeout < (60::nat) then TimedOut else Done [])
       (search_request 100 (Str (of_ascii ''deep learning'') :: unit pyval) 10) 45 = TimedOut
   \<and> search (\<lambda>request timeout. if timeout < 60 then TimedOut else Done [])
       (\<lambda>result. Inr result) 100 (Str (of_ascii ''deep learning'') :: unit pyval) 10 =
     Inl (Exception, [Lit ''ArXiv search timed out after 45 seconds''])"
  using search_timeout
    [where 'v = unit and 'r = literature_item
       and wait_for = "\<lambda>request timeout. if timeout < 60 then TimedOut else Done []"
       and convert = "\<lambda>result. Inr result" and self_max_results = 100
       and query = "Str (of_ascii ''deep learning'')" and max_results = 10]
  by simp


section \<open>Summarizing blank text\<close>

lemma strip_blank: "(strip text = []) = (\<forall>c\<in>set text. isspace c)"
proof
  assume "strip text = []"
  then have "dropWhile isspace (rev (dropWhile isspace text)) = []"
    by (simp add: strip_def)
  then have "\<forall>c\<in>set (dropWhile isspace text). isspace c"
    by (simp add: dropWhile_eq_Nil_conv)
  moreover have "dropWhile isspace text \<noteq> [] \<Longrightarrow> \<not> isspace (hd (dropWhile isspace text))"
    by (rule hd_dropWhile)
  ultimately have "dropWhile isspace text = []"
    by (cases "dropWhile isspace text") auto
  then show "\<forall>c\<in>set text. isspace c"
    by (simp add: dropWhile_eq_Nil_conv)
next
  assume "\<forall>c\<in>set text. isspace c"
  then have "dropWhile isspace text = []"
    by (simp add: dropWhile_eq_Nil_conv)
  then show "strip text = []" by (simp only: strip_def rev.simps dropWhile.simps)
qed

text \<open>
  C10. For a text that is empty or has whitespace characters only, \<open>summarize_text\<close>
  returns the empty string, makes no request to the LLM manager and raises nothing.
  Whenever it raises, a \<open>SummarizerError\<close> or anything else, the text has a character
  that is not whitespace.
\<close>

theorem summarize_blank_text:
  "((\<forall>c\<in>set input_text. isspace c) \<longrightarrow>
      summarize_text llm format isdigit to_int defaults
        input_text summary_type max_tokens temperature prompt_template ctx = (Inr [], []))
   \<and> (fst (summarize_text llm format isdigit to_int defaults
          input_text summary_type max_tokens temperature prompt_template ctx) = Inl e \<longrightarrow>
        (\<exists>c\<in>set input_text. \<not> isspace c))"
proof -
  have blank: "(\<forall>c\<in>set input_text. isspace c) \<longrightarrow>
      summarize_text llm format isdigit to_int defaults
        input_text summary_type max_tokens temperature prompt_template ctx = (Inr [], [])"
    by (simp add: summarize_text_def strip_blank)
  have "fst (summarize_text llm format isdigit to_int defaults
          input_text summary_type max_tokens temperature prompt_template ctx) = Inl e \<Longrightarrow>
        strip input_text \<noteq> []"
    by (auto simp: summarize_text_def)
  then have raised: "fst (summarize_text llm format isdigit to_int defaults
          input_text summary_type max_tokens temperature prompt_template ctx) = Inl e \<longrightarrow>
        (\<exists>c\<in>set input_text. \<not> isspace c)"
    by (auto simp: strip_blank)
  from blank raised show ?thesis by blast
qed

theorem summarize_blank_text_witness:
  "strip [32, 10, 9] = []
   \<and> summarize_text (\<lambda>request. Inl (LLMManagerError, [Lit ''no provider'']))
       (\<lambda>template args. Inr template) (\<lambda>s. False) (\<lambda>s. Inr 0)
       \<lparr>default_max_tokens = None, default_temperature = None\<rparr>
       [32, 10, 9] (of_ascii ''key_findings'') None None None None = (Inr [], [])
   \<and> fst (summarize_text (\<lambda>request. Inl (LLMManagerError, [Lit ''no provider'']))
       (\<lambda>template args. Inr template) (\<lambda>s. False) (\<lambda>s. Inr 0)
       \<lparr>default_max_tokens = None, default_temperature = None\<rparr>
       (of_ascii ''x'') (of_ascii ''key_findings'') None None None None) =
     Inl (SummarizerError, [Lit ''LLM interaction failed: '', Str_of [Lit ''no provider'']])
   \<and> strip (of_ascii ''x'') \<noteq> []"
proof -
  have all_space: "\<forall>c\<in>set [32, 10, 9]. isspace c"
    by (simp add: isspace_def)
  have blank: "strip [32, 10, 9] = []"
    by (simp add: strip_def isspace_def)
  have returned: "summarize_text (\<lambda>request. Inl (LLMManagerError, [Lit ''no provider'']))
       (\<lambda>template args. Inr template) (\<lambda>s. False) (\<lambda>s. Inr 0)
       \<lparr>default_max_tokens = None, default_temperature = None\<rparr>
       [32, 10, 9] (of_ascii ''key_findings'') None None None None = (Inr [], [])"
    using summarize_blank_text
      [where input_text = "[32, 10, 9]"
         and llm = "\<lambda>request. Inl (LLMManagerError, [Lit ''no provider''])"
         and format = "\<lambda>template args. Inr template" and isdigit = "\<lambda>s. False"
         and to_int = "\<lambda>s. Inr 0"
         and defaults = "\<lparr>default_max_tokens = None, default_temperature = None\<rparr>"
         and summary_type = "of_ascii ''key_findings''" and max_tokens = None
         and temperature = None and prompt_template = None and ctx = None]
      all_space
    by blast
  have nonblank: "strip (of_ascii ''x'') \<noteq> []"
    by (simp add: strip_def isspace_def of_ascii_def)
  have raised: "fst (summarize_text (\<lambda>request. Inl (LLMManagerError, [Lit ''no provider'']))
       (\<lambda>template args. Inr template) (\<lambda>s. False) (\<lambda>s. Inr 0)
       \<lparr>default_max_tokens = None, default_temperature = None\<rparr>
       (of_ascii ''x'') (of_ascii ''key_findings'') None None None None) =
     Inl (SummarizerError, [Lit ''LLM interaction failed: '', Str_of [Lit ''no provider'']])"
    using nonblank
    by (simp add: summarize_text_def final_max_tokens_def prompts_def present_def
        fill_placeholder_def read_response_def split: sum.splits)
  from blank returned raised nonblank show ?thesis by blast
qed


section \<open>Degradation in the analysis stage\<close>

text \<open>
  C7, as the specification words it, fails: an item with neither full text nor abstract is
  an item without full text, for which the summarizer would be called with
  \<open>abstract_enhancement\<close>; the loop does not call the summarizer for it at all and gives it
  a fixed summary of its own.
\<close>

theorem analysis_no_text_counterexample:
  "full_text (new_item (of_ascii ''arxiv:1'') (of_ascii ''A'') (of_ascii ''arxiv'')) = None
   \<and> abstract (new_item (of_ascii ''arxiv:1'') (of_ascii ''A'') (of_ascii ''arxiv'')) = None
   \<and> process_item (\<lambda>t. Inr []) (\<lambda>t summary_type. Inr t) (\<lambda>message. None)
        (new_item (of_ascii ''arxiv:1'') (of_ascii ''A'') (of_ascii ''arxiv'')) =
       (Inr (paper (new_item (of_ascii ''arxiv:1'') (of_ascii ''A'') (of_ascii ''arxiv''))
               (of_ascii ''No text content available for summarization.'') []),
        [])"
  by (simp add: process_item_def text_for_ai_def truthy_def present_def new_item_def)

lemma process_item_calls:
  assumes "present (text_for_ai item) = Some t"
    and "keywords_handler_returns extract_research_keywords log_error item"
  shows "snd (process_item extract_research_keywords summarize log_error item) =
    [(t, summary_type_for_llm item)]"
  using assms
  by (auto simp: process_item_def keywords_step_def keywords_handler_returns_def
      split: sum.splits option.splits)

lemma process_item_returns:
  assumes "keywords_handler_returns extract_research_keywords log_error item"
    and "summarizer_handler_returns summarize log_error item"
  shows "\<exists>processed. fst (process_item extract_research_keywords summarize log_error item) =
      Inr processed \<and> item_id_internal processed = item_id item"
  using assms
  by (auto simp: process_item_def keywords_step_def summary_step_def paper_def
      keywords_handler_returns_def summarizer_handler_returns_def
      split: sum.splits option.splits)

lemma process_papers_all:
  "\<forall>item\<in>set retrieved_items.
      keywords_handler_returns extract_research_keywords log_error item
      \<and> summarizer_handler_returns summarize log_error item \<Longrightarrow>
   map item_id_internal
     (fst (process_papers extract_research_keywords summarize log_error retrieved_items)) =
     map item_id retrieved_items
   \<and> snd (process_papers extract_research_keywords summarize log_error retrieved_items) = None"
proof (induction retrieved_items)
  case Nil
  then show ?case by simp
next
  case (Cons item rest)
  then have "keywords_handler_returns extract_research_keywords log_error item"
    and "summarizer_handler_returns summarize log_error item"
    by simp_all
  then obtain processed where
    "fst (process_item extract_research_keywords summarize log_error item) = Inr processed"
    and "item_id_internal processed = item_id item"
    using process_item_returns by blast
  moreover have "map item_id_internal
     (fst (process_papers extract_research_keywords summarize log_error rest)) =
     map item_id rest
     \<and> snd (process_papers extract_research_keywords summarize log_error rest) = None"
    using Cons by simp
  ultimately show ?case by simp
qed

text \<open>
  What the amended claim leaves out: when the logging call of the summarizer's handler
  raises, the placeholder is not set, the item gets no entry and the loop ends there.
\<close>

lemma process_papers_handler_raises:
  assumes "present (text_for_ai item) = Some t"
    and "extract_research_keywords t = Inr kws"
    and "summarize t (summary_type_for_llm item) = Inl summ_e"
    and "log_error (summarizer_error_message item summ_e) = Some e"
  shows "process_papers extract_research_keywords summarize log_error (item # rest) =
    ([], Some e)"
  using assms by (simp add: process_item_def keywords_step_def summary_step_def)

text \<open>
  C7, amended. For an item with full text the summarizer is called once, on the full text,
  with \<open>key_findings\<close>; for an item with an abstract and no full text it is called once,
  on the abstract, with \<open>abstract_enhancement\<close>; both provided the handler of the keyword
  extraction, which runs before, returns. For an item with neither text the summarizer is
  not called and the summary is \<open>No text content available for summarization.\<close> When the
  call of the summarizer raises and the logging call of its handler returns, the summary
  is \<open>AI summary generation failed.\<close> and the item has its entry. When the handlers
  return for every item, the processed results hold one entry per item, in the order of
  the items, and no exception leaves the loop.
\<close>

theorem analysis_degradation:
  "(full_text item = Some ft \<and> ft \<noteq> []
        \<and> keywords_handler_returns extract_research_keywords log_error item \<longrightarrow>
      snd (process_item extract_research_keywords summarize log_error item) =
        [(ft, of_ascii ''key_findings'')])
   \<and> (\<not> truthy (full_text item) \<and> abstract item = Some ab \<and> ab \<noteq> []
        \<and> keywords_handler_returns extract_research_keywords log_error item \<longrightarrow>
      snd (process_item extract_research_keywords summarize log_error item) =
        [(ab, of_ascii ''abstract_enhancement'')])
   \<and> (\<not> truthy (full_text item) \<and> \<not> truthy (abstract item) \<longrightarrow>
      process_item extract_research_keywords summarize log_error item =
        (Inr (paper item (of_ascii ''No text content available for summarization.'') []), []))
   \<and> (snd (process_item extract_research_keywords summarize log_error item) = [(t, ty)]
        \<and> summarize t ty = Inl summ_e
        \<and> log_error (summarizer_error_message item summ_e) = None \<longrightarrow>
      (\<exists>processed.
          fst (process_item extract_research_keywords summarize log_error item) = Inr processed
          \<and> ai_enhanced_summary processed = of_ascii ''AI summary generation failed.''
          \<and> item_id_internal processed = item_id item))
   \<and> ((\<forall>i\<in>set retrieved_items.
          keywords_handler_returns extract_research_keywords log_error i
          \<and> summarizer_handler_returns summarize log_error i) \<longrightarrow>
      map item_id_internal
        (fst (process_papers extract_research_keywords summarize log_error retrieved_items)) =
        map item_id retrieved_items
      \<and> snd (process_papers extract_research_keywords summarize log_error retrieved_items) =
          None)"
proof -
  have full: "full_text item = Some ft \<and> ft \<noteq> []
        \<and> keywords_handler_returns extract_research_keywords log_error item \<longrightarrow>
      snd (process_item extract_research_keywords summarize log_error item) =
        [(ft, of_ascii ''key_findings'')]"
  proof
    assume a: "full_text item = Some ft \<and> ft \<noteq> []
        \<and> keywords_handler_returns extract_research_keywords log_error item"
    then have "present (text_for_ai item) = Some ft"
      and "summary_type_for_llm item = of_ascii ''key_findings''"
      by (simp_all add: text_for_ai_def summary_type_for_llm_def truthy_def present_def)
    with a show "snd (process_item extract_research_keywords summarize log_error item) =
        [(ft, of_ascii ''key_findings'')]"
      using process_item_calls [of item ft extract_research_keywords log_error summarize]
      by simp
  qed
  have abstract_only: "\<not> truthy (full_text item) \<and> abstract item = Some ab \<and> ab \<noteq> []
        \<and> keywords_handler_returns extract_research_keywords log_error item \<longrightarrow>
      snd (process_item extract_research_keywords summarize log_error item) =
        [(ab, of_ascii ''abstract_enhancement'')]"
  proof
    assume a: "\<not> truthy (full_text item) \<and> abstract item = Some ab \<and> ab \<noteq> []
        \<and> keywords_handler_returns extract_research_keywords log_error item"
    then have "present (text_for_ai item) = Some ab"
      and "summary_type_for_llm item = of_ascii ''abstract_enhancement''"
      by (simp_all add: text_for_ai_def summary_type_for_llm_def present_def)
    with a show "snd (process_item extract_research_keywords summarize log_error item) =
        [(ab, of_ascii ''abstract_enhancement'')]"
      using process_item_calls [of item ab extract_research_keywords log_error summarize]
      by simp
  qed
  have none: "\<not> truthy (full_text item) \<and> \<not> truthy (abstract item) \<longrightarrow>
      process_item extract_research_keywords summarize log_error item =
        (Inr (paper item (of_ascii ''No text content available for summarization.'') []), [])"
    by (auto simp: process_item_def text_for_ai_def truthy_def present_def
        split: option.splits)
  have failed: "snd (process_item extract_research_keywords summarize log_error item) = [(t, ty)]
        \<and> summarize t ty = Inl summ_e
        \<and> log_error (summarizer_error_message item summ_e) = None \<longrightarrow>
      (\<exists>processed.
          fst (process_item extract_research_keywords summarize log_error item) = Inr processed
          \<and> ai_enhanced_summary processed = of_ascii ''AI summary generation failed.''
          \<and> item_id_internal processed = item_id item)"
    by (auto simp: process_item_def summary_step_def paper_def
        split: option.splits sum.splits)
  have all: "(\<forall>i\<in>set retrieved_items.
          keywords_handler_returns extract_research_keywords log_error i
          \<and> summarizer_handler_returns summarize log_error i) \<longrightarrow>
      map item_id_internal
        (fst (process_papers extract_research_keywords summarize log_error retrieved_items)) =
        map item_id retrieved_items
      \<and> snd (process_papers extract_research_keywords summarize log_error retrieved_items) =
          None"
    using process_papers_all by blast
  from full abstract_only none failed all show ?thesis by blast
qed

theorem analysis_degradation_witness:
  "full_text ((new_item (of_ascii ''arxiv:1'') (of_ascii ''A'') (of_ascii ''arxiv''))
      \<lparr>abstract := Some (of_ascii ''An abstract.''),
       full_text := Some (of_ascii ''The full text.'')\<rparr>) = Some (of_ascii ''The full text.'')
   \<and> of_ascii ''The full text.'' \<noteq> []
   \<and> keywords_handler_returns (\<lambda>t. Inr []) (\<lambda>message. None)
        ((new_item (of_ascii ''arxiv:1'') (of_ascii ''A'') (of_ascii ''arxiv''))
           \<lparr>abstract := Some (of_ascii ''An abstract.''),
            full_text := Some (of_ascii ''The full text.'')\<rparr>)
   \<and> snd (process_item (\<lambda>t. Inr []) (\<lambda>t ty. Inl (SummarizerError, [Lit ''failed'']))
        (\<lambda>message. None)
        ((new_item (of_ascii ''arxiv:1'') (of_ascii ''A'') (of_ascii ''arxiv''))
           \<lparr>abstract := Some (of_ascii ''An abstract.''),
            full_text := Some (of_ascii ''The full text.'')\<rparr>)) =
       [(of_ascii ''The full text.'', of_ascii ''key_findings'')]
   \<and> map_sum (\<lambda>e. e) ai_enhanced_summary
        (fst (process_item (\<lambda>t. Inr []) (\<lambda>t ty. Inl (SummarizerError, [Lit ''failed'']))
           (\<lambda>message. None)
           ((new_item (of_ascii ''arxiv:1'') (of_ascii ''A'') (of_ascii ''arxiv''))
              \<lparr>abstract := Some (of_ascii ''An abstract.''),
               full_text := Some (of_ascii ''The full text.'')\<rparr>))) =
       Inr (of_ascii ''AI summary generation failed.'')
   \<and> snd (process_item (\<lambda>t. Inr []) (\<lambda>t ty. Inl (SummarizerError, [Lit ''failed'']))
        (\<lambda>message. None)
        ((new_item (of_ascii ''arxiv:2'') (of_ascii ''B'') (of_ascii ''arxiv''))
           \<lparr>abstract := Some (of_ascii ''An abstract.'')\<rparr>)) =
       [(of_ascii ''An abstract.'', of_ascii ''abstract_enhancement'')]
   \<and> map item_id_internal
        (fst (process_papers (\<lambda>t. Inr []) (\<lambda>t ty. Inl (SummarizerError, [Lit ''failed'']))
           (\<lambda>message. None)
           [(new_item (of_ascii ''arxiv:1'') (of_ascii ''A'') (of_ascii ''arxiv''))
              \<lparr>abstract := Some (of_ascii ''An abstract.''),
               full_text := Some (of_ascii ''The full text.'')\<rparr>,
            (new_item (of_ascii ''arxiv:2'') (of_ascii ''B'') (of_ascii ''arxiv''))
              \<lparr>abstract := Some (of_ascii ''An abstract.'')\<rparr>])) =
       [of_ascii ''arxiv:1'', of_ascii ''arxiv:2'']"
proof -
  let ?kw = "\<lambda>t :: ustr. Inr [] :: exn + ustr list"
  let ?summarize = "\<lambda>(t :: ustr) (ty :: ustr). Inl (SummarizerError, [Lit ''failed'']) :: exn + ustr"
  let ?log = "\<lambda>message :: part list. None :: exn option"
  let ?full = "(new_item (of_ascii ''arxiv:1'') (of_ascii ''A'') (of_ascii ''arxiv''))
      \<lparr>abstract := Some (of_ascii ''An abstract.''),
       full_text := Some (of_ascii ''The full text.'')\<rparr>"
  let ?short = "(new_item (of_ascii ''arxiv:2'') (of_ascii ''B'') (of_ascii ''arxiv''))
      \<lparr>abstract := Some (of_ascii ''An abstract.'')\<rparr>"
  note with_full = analysis_degradation
    [where item = ?full and ft = "of_ascii ''The full text.''"
       and extract_research_keywords = ?kw and summarize = ?summarize and log_error = ?log
       and t = "of_ascii ''The full text.''" and ty = "of_ascii ''key_findings''"
       and summ_e = "(SummarizerError, [Lit ''failed''])"
       and retrieved_items = "[?full, ?short]"]
  note with_abstract = analysis_degradation
    [where item = ?short and ab = "of_ascii ''An abstract.''"
       and extract_research_keywords = ?kw and summarize = ?summarize and log_error = ?log]
  have has_full: "full_text ?full = Some (of_ascii ''The full text.'')"
    by (simp add: new_item_def)
  have nonempty: "of_ascii ''The full text.'' \<noteq> []"
    by (simp add: of_ascii_def)
  have kw_full: "keywords_handler_returns ?kw ?log ?full"
    and kw_short: "keywords_handler_returns ?kw ?log ?short"
    by (simp_all add: keywords_handler_returns_def split: option.splits)
  have summ_full: "summarizer_handler_returns ?summarize ?log ?full"
    and summ_short: "summarizer_handler_returns ?summarize ?log ?short"
    by (simp_all add: summarizer_handler_returns_def split: option.splits)
  have called: "snd (process_item ?kw ?summarize ?log ?full) =
      [(of_ascii ''The full text.'', of_ascii ''key_findings'')]"
    using with_full has_full nonempty kw_full by blast
  have "?summarize (of_ascii ''The full text.'') (of_ascii ''key_findings'') =
      Inl (SummarizerError, [Lit ''failed''])"
    and "?log (summarizer_error_message ?full (SummarizerError, [Lit ''failed''])) = None"
    by simp_all
  with with_full called have "\<exists>processed.
      fst (process_item ?kw ?summarize ?log ?full) = Inr processed
      \<and> ai_enhanced_summary processed = of_ascii ''AI summary generation failed.''
      \<and> item_id_internal processed = item_id ?full"
    by blast
  then have degraded: "map_sum (\<lambda>e. e) ai_enhanced_summary
      (fst (process_item ?kw ?summarize ?log ?full)) =
      Inr (of_ascii ''AI summary generation failed.'')"
    by auto
  have "\<not> truthy (full_text ?short)"
    by (simp add: truthy_def new_item_def)
  moreover have "abstract ?short = Some (of_ascii ''An abstract.'')"
    by (simp add: new_item_def)
  moreover have "of_ascii ''An abstract.'' \<noteq> []"
    by (simp add: of_ascii_def)
  ultimately have enhanced: "snd (process_item ?kw ?summarize ?log ?short) =
      [(of_ascii ''An abstract.'', of_ascii ''abstract_enhancement'')]"
    using with_abstract kw_short by blast
  have "\<forall>i\<in>set [?full, ?short].
      keywords_handler_returns ?kw ?log i \<and> summarizer_handler_returns ?summarize ?log i"
    using kw_full kw_short summ_full summ_short by simp
  with with_full have "map item_id_internal
      (fst (process_papers ?kw ?summarize ?log [?full, ?short])) =
      map item_id [?full, ?short]"
    by blast
  then have batch: "map item_id_internal
      (fst (process_papers ?kw ?summarize ?log [?full, ?short])) =
      [of_ascii ''arxiv:1'', of_ascii ''arxiv:2'']"
    by (simp add: new_item_def)
  from has_full nonempty kw_full called degraded enhanced batch show ?thesis by blast
qed


section \<open>Retries of an LLM request\<close>

text \<open>
  What one failed attempt does. A status of 401 or 403 ends the call at once, with no sleep
  and no further request. A status of 429 sleeps the rate-limit delay times the attempt
  number, counted from one, and goes on. Any other failure that is not the last attempt
  sleeps as many seconds as the attempt number, counted from one, and goes on.
\<close>

lemma attempts_authentication:
  "http attempt = HTTPStatusError status_code text e \<Longrightarrow> status_code \<in> {401, 403} \<Longrightarrow>
   attempts max_retries POST http (attempt # rest) =
     (Inl (LLMManagerError, [Lit ''Authentication error: '', Text text]), [Send attempt])"
  by (auto simp: attempt_outcome_def and_then_def)

lemma attempts_rate_limit:
  "http attempt = HTTPStatusError 429 text e \<Longrightarrow>
   attempts max_retries POST http (attempt # rest) =
     and_then [Send attempt, Sleep_rate_limit (attempt + 1)]
       (attempts max_retries POST http rest)"
  by (simp add: attempt_outcome_def and_then_def)

lemma attempts_backoff:
  "http attempt = HTTPStatusError status_code text e \<Longrightarrow>
   status_code \<notin> {401, 403, 429} \<Longrightarrow> int attempt \<noteq> max_retries - 1 \<Longrightarrow>
   attempts max_retries POST http (attempt # rest) =
     and_then [Send attempt, Sleep_seconds (attempt + 1)]
       (attempts max_retries POST http rest)"
  by (simp add: attempt_outcome_def and_then_def)

lemma attempts_request_error_backoff:
  "http attempt = RequestError e \<Longrightarrow> int attempt \<noteq> max_retries - 1 \<Longrightarrow>
   attempts max_retries POST http (attempt # rest) =
     and_then [Send attempt, Sleep_seconds (attempt + 1)]
       (attempts max_retries POST http rest)"
  by (simp add: attempt_outcome_def and_then_def)

text \<open>
  C2. The delay between retries grows by one second per attempt; it does not double. With
  \<open>max_retries\<close> at 4 and a provider that answers every attempt with status 500, the
  three sleeps are of 1, 2 and 3 seconds, where a backoff doubling from one second waits 4
  seconds before the fourth attempt.
\<close>

theorem make_request_backoff_is_linear:
  "make_request (Some (of_ascii ''https://api.deepseek.com/v1'')) 4 POST
       (\<lambda>attempt. HTTPStatusError 500 (of_ascii ''busy'') (of_ascii ''Server error'')) =
     (Inl (LLMManagerError,
           [Lit ''HTTP error after '', IntArg 4, Lit '' retries: '',
            Text (of_ascii ''Server error'')]),
      [Send 0, Sleep_seconds 1, Send 1, Sleep_seconds 2, Send 2, Sleep_seconds 3, Send 3])
   \<and> exponential_backoff 2 = 4"
proof -
  have "[0..<nat 4] = [0, 1, 2, 3]"
    by (simp add: upt_rec)
  then show ?thesis
    by (simp add: make_request_def truthy_def of_ascii_def attempt_outcome_def and_then_def
        exponential_backoff_def)
qed

text \<open>
  With the default of three retries only the first two delays occur, and they are those of
  a doubling backoff.
\<close>

lemma make_request_default_retries:
  "make_request (Some (of_ascii ''https://api.deepseek.com/v1'')) 3 POST
       (\<lambda>attempt. HTTPStatusError 500 (of_ascii ''busy'') (of_ascii ''Server error'')) =
     (Inl (LLMManagerError,
           [Lit ''HTTP error after '', IntArg 3, Lit '' retries: '',
            Text (of_ascii ''Server error'')]),
      [Send 0, Sleep_seconds (exponential_backoff 0), Send 1,
       Sleep_seconds (exponential_backoff 1), Send 2])"
proof -
  have "[0..<nat 3] = [0, 1, 2]"
    by (simp add: upt_rec)
  then show ?thesis
    by (simp add: make_request_def truthy_def of_ascii_def attempt_outcome_def and_then_def
        exponential_backoff_def)
qed

end
